theory Spec2Isabelle
  imports Complex_Main
begin

section \<open>Flight-Tracker: flight profile estimator and live re-estimation\<close>

text \<open>
  The development embeds \<^verbatim>\<open>flight_tracker_app.py\<close>: the function
  \<^verbatim>\<open>calcular_perfil_de_voo\<close>, the table \<^verbatim>\<open>aeronaves\<close>, the function
  \<^verbatim>\<open>consultar_adsb_lol\<close> and the live-tracking part of the script.

  Numbers. Python's \<^verbatim>\<open>int\<close> and \<^verbatim>\<open>float\<close> values are real numbers here. Every
  arithmetic operation of the source that produces a \<^verbatim>\<open>float\<close> is followed by a rounding
  function \<open>rnd\<close>, the first parameter of each embedded function. With \<open>rnd = binary64\<close>
  (below) the operations are those of CPython on IEEE 754 doubles, as long as no result
  overflows or falls into the subnormal range; with \<open>rnd = (\<lambda>x. x)\<close> they are exact. A float literal \<^verbatim>\<open>0.85\<close> is \<open>rnd (85 / 100)\<close>.
  The arguments are the numbers that the program holds, integers and doubles; an integer
  operand is converted without loss. Infinities, NaN and subnormal numbers are not
  modelled.
\<close>

subsection \<open>Rounding to IEEE 754 binary64\<close>

text \<open>Round half to even, to an integer.\<close>

definition rhe :: "real \<Rightarrow> int" where
  "rhe m = (let f = \<lfloor>m\<rfloor>; d = m - of_int f in
     if d < 1 / 2 then f else if 1 / 2 < d then f + 1 else if even f then f else f + 1)"

text \<open>
  \<open>normalise m e\<close> scales a positive \<open>m\<close> by powers of two until
  \<open>2 ^ 52 \<le> m < 2 ^ 53\<close>, keeping \<open>m * 2 ^ e\<close> unchanged.
\<close>

function normalise :: "real \<Rightarrow> int \<Rightarrow> real \<times> int" where
  "normalise m e =
     (if 0 < m \<and> m < 4503599627370496 then normalise (2 * m) (e - 1)
      else if 9007199254740992 \<le> m then normalise (m / 2) (e + 1)
      else (m, e))"
  by pat_completeness auto
termination
proof (relation "measure (\<lambda>(m, e). nat \<bar>\<lfloor>log 2 m\<rfloor> - 52\<bar>)")
  show "wf (measure (\<lambda>(m, e). nat \<bar>\<lfloor>log 2 m\<rfloor> - 52\<bar>))"
    by simp
next
  fix m :: real and e :: int
  assume a: "0 < m \<and> m < 4503599627370496"
  then have "log 2 m < 52"
    by (simp add: log_less_iff)
  then have f: "\<lfloor>log 2 m\<rfloor> < 52"
    by (simp add: floor_less_iff)
  have "log 2 (2 * m) = 1 + log 2 m"
    using a by (simp add: log_mult)
  then have "\<lfloor>log 2 (2 * m)\<rfloor> = \<lfloor>log 2 m\<rfloor> + 1"
    by simp
  with f show "((2 * m, e - 1), (m, e)) \<in> measure (\<lambda>(m, e). nat \<bar>\<lfloor>log 2 m\<rfloor> - 52\<bar>)"
    by simp
next
  fix m :: real and e :: int
  assume "\<not> (0 < m \<and> m < 4503599627370496)" and b: "9007199254740992 \<le> m"
  then have m: "0 < m"
    by simp
  from b m have "53 \<le> log 2 m"
    by (simp add: le_log_iff)
  then have f: "53 \<le> \<lfloor>log 2 m\<rfloor>"
    by (simp add: le_floor_iff)
  have "log 2 (m / 2) = log 2 m - 1"
    using m by (simp add: log_divide)
  then have "\<lfloor>log 2 (m / 2)\<rfloor> = \<lfloor>log 2 m\<rfloor> - 1"
    by simp
  with f show "((m / 2, e + 1), (m, e)) \<in> measure (\<lambda>(m, e). nat \<bar>\<lfloor>log 2 m\<rfloor> - 52\<bar>)"
    by simp
qed

declare normalise.simps [simp del]

text \<open>
  The double nearest to \<open>x\<close> (ties to even), with a significand of 53 bits. The exponent
  is not bounded: overflow and underflow are not modelled.
\<close>

definition binary64 :: "real \<Rightarrow> real" where
  "binary64 x = (if x = 0 then 0 else
     (case normalise \<bar>x\<bar> 0 of (m, e) \<Rightarrow> sgn x * of_int (rhe m) * 2 powi e))"

text \<open>
  The exponent and the significand that \<open>normalise\<close> finds for a positive number, written
  with the logarithm; they are used in the proofs only.
\<close>

definition expo :: "real \<Rightarrow> int" where
  "expo x = \<lfloor>log 2 x\<rfloor> - 52"

definition signif :: "real \<Rightarrow> real" where
  "signif x = x / 2 powi expo x"

subsection \<open>Errors\<close>

text \<open>
  The two \<^verbatim>\<open>ValueError\<close>s of \<^verbatim>\<open>calcular_perfil_de_voo\<close> are told apart by a tag that
  stands for the message: \<open>Custom_incompleto\<close> for "Para aeronave custom, todos os
  parametros devem ser fornecidos", \<open>Tipo_invalido\<close> for "Tipo de aeronave nao
  especificado corretamente".
\<close>

datatype mensagem = Custom_incompleto | Tipo_invalido

datatype error = ValueError mensagem | ZeroDivisionError

text \<open>Python's true division \<^verbatim>\<open>x / y\<close>: it raises when the divisor is zero.\<close>

definition py_div :: "(real \<Rightarrow> real) \<Rightarrow> real \<Rightarrow> real \<Rightarrow> error + real" where
  "py_div rnd x y = (if y = 0 then Inl ZeroDivisionError else Inr (rnd (x / y)))"

subsection \<open>The aircraft table\<close>

record param =
  altitude_cruzeiro_ft :: real
  vel_subida_kmh :: real
  vel_cruzeiro_kmh :: real
  vel_descida_kmh :: real
  razao_subida_fpm :: real
  razao_descida_fpm :: real
  subida_descida :: real

definition aeronaves :: "string \<rightharpoonup> param" where
  "aeronaves =
     [''VC-1 (Airbus A319)'' \<mapsto>
        \<lparr>altitude_cruzeiro_ft = 35000, vel_subida_kmh = 500, vel_cruzeiro_kmh = 840,
         vel_descida_kmh = 600, razao_subida_fpm = 2000, razao_descida_fpm = 1800,
         subida_descida = 314\<rparr>,
      ''VC-2 (Embraer 190)'' \<mapsto>
        \<lparr>altitude_cruzeiro_ft = 37000, vel_subida_kmh = 480, vel_cruzeiro_kmh = 820,
         vel_descida_kmh = 580, razao_subida_fpm = 2200, razao_descida_fpm = 1800,
         subida_descida = 268\<rparr>,
      ''KC-30 (Airbus A330)'' \<mapsto>
        \<lparr>altitude_cruzeiro_ft = 41000, vel_subida_kmh = 550, vel_cruzeiro_kmh = 880,
         vel_descida_kmh = 650, razao_subida_fpm = 2000, razao_descida_fpm = 2000,
         subida_descida = 362\<rparr>]"

subsection \<open>The flight profile estimator\<close>

text \<open>
  The dictionary returned by \<^verbatim>\<open>calcular_perfil_de_voo\<close>: the keys \<^verbatim>\<open>subida\<close>,
  \<^verbatim>\<open>cruzeiro\<close> and \<^verbatim>\<open>descida\<close> hold a \<open>trecho\<close>; the key
  \<^verbatim>\<open>altitude_cruzeiro_ft\<close> is the field \<open>altitude_ft\<close> (the name is taken by the table).
\<close>

record trecho =
  dist_km :: real
  tempo_h :: real

record perfil =
  subida :: trecho
  cruzeiro :: trecho
  descida :: trecho
  tempo_total_h :: real
  altitude_ft :: real

text \<open>
  Lines 82 to 103, the part under "Calculos do perfil de voo", on the six local variables
  that the first part of the function has set.
\<close>

definition calculos_do_perfil ::
  "(real \<Rightarrow> real) \<Rightarrow> real \<Rightarrow> real \<Rightarrow> real \<Rightarrow> real \<Rightarrow> real \<Rightarrow> real \<Rightarrow> real \<Rightarrow> error + perfil" where
  "calculos_do_perfil rnd distancia_total_km altitude vel_subida vel_cruzeiro vel_descida
       razao_subida razao_descida =
     (case py_div rnd altitude razao_subida of
        Inl e \<Rightarrow> Inl e
      | Inr tempo_subida_min \<Rightarrow>
         (case py_div rnd altitude razao_descida of
            Inl e \<Rightarrow> Inl e
          | Inr tempo_descida_min \<Rightarrow>
             (let tempo_subida_h = rnd (tempo_subida_min / 60);
                  tempo_descida_h = rnd (tempo_descida_min / 60);
                  d_subida_km = rnd (vel_subida * tempo_subida_h);
                  d_descida_km = rnd (vel_descida * tempo_descida_h);
                  d_cruzeiro_km =
                    max 0 (rnd (rnd (distancia_total_km - d_subida_km) - d_descida_km))
              in
               (case (if d_cruzeiro_km > 0 then py_div rnd d_cruzeiro_km vel_cruzeiro
                      else Inr 0) of
                  Inl e \<Rightarrow> Inl e
                | Inr t_cruzeiro_h \<Rightarrow>
                    Inr \<lparr>subida = \<lparr>dist_km = d_subida_km, tempo_h = tempo_subida_h\<rparr>,
                         cruzeiro = \<lparr>dist_km = d_cruzeiro_km, tempo_h = t_cruzeiro_h\<rparr>,
                         descida = \<lparr>dist_km = d_descida_km, tempo_h = tempo_descida_h\<rparr>,
                         tempo_total_h =
                           rnd (rnd (tempo_subida_h + t_cruzeiro_h) + tempo_descida_h),
                         altitude_ft = altitude\<rparr>))))"

text \<open>
  The whole function. An argument left at its default \<^verbatim>\<open>None\<close> is \<open>None\<close>. The test
  \<^verbatim>\<open>tipo_aeronave in aeronaves\<close> comes first; for a table entry the other arguments are
  overwritten by the table's values. In the branch \<^verbatim>\<open>Custom\<close> the test
  \<^verbatim>\<open>None in [vel_custom, altitude_cruzeiro_ft, razao_subida_fpm, razao_descida_fpm]\<close>
  raises unless the four are given.
\<close>

definition calcular_perfil_de_voo ::
  "(real \<Rightarrow> real) \<Rightarrow> real \<Rightarrow> string option \<Rightarrow> real option \<Rightarrow> real option \<Rightarrow>
   real option \<Rightarrow> real option \<Rightarrow> real option \<Rightarrow> real option \<Rightarrow> real option \<Rightarrow> error + perfil" where
  "calcular_perfil_de_voo rnd distancia_total_km tipo_aeronave vel_custom altitude_cruzeiro
       vel_subida vel_cruzeiro vel_descida razao_subida razao_descida =
     (case (case tipo_aeronave of None \<Rightarrow> None | Some t \<Rightarrow> aeronaves t) of
        Some p \<Rightarrow>
          calculos_do_perfil rnd distancia_total_km (altitude_cruzeiro_ft p) (vel_subida_kmh p)
            (vel_cruzeiro_kmh p) (vel_descida_kmh p) (razao_subida_fpm p) (razao_descida_fpm p)
      | None \<Rightarrow>
          if tipo_aeronave = Some ''Custom'' then
            (case (vel_custom, altitude_cruzeiro, razao_subida, razao_descida) of
               (Some v, Some a, Some rs, Some rd) \<Rightarrow>
                 calculos_do_perfil rnd distancia_total_km a v v v rs rd
             | _ \<Rightarrow> Inl (ValueError Custom_incompleto))
          else Inl (ValueError Tipo_invalido))"

text \<open>
  Lines 260 to 274: the call for the theoretical estimate. For a Custom aircraft it passes
  the speed, the altitude and both rates entered in the sidebar.
\<close>

definition perfil_teorico ::
  "(real \<Rightarrow> real) \<Rightarrow> real \<Rightarrow> string \<Rightarrow> real \<Rightarrow> real \<Rightarrow> real \<Rightarrow> real \<Rightarrow> error + perfil" where
  "perfil_teorico rnd distancia tipo_aeronave vel_custom altitude_custom razao_subida_custom
       razao_descida_custom =
     (if aeronaves tipo_aeronave \<noteq> None then
        calcular_perfil_de_voo rnd distancia (Some tipo_aeronave) None None None None None None None
      else
        calcular_perfil_de_voo rnd distancia (Some ''Custom'') (Some vel_custom)
          (Some altitude_custom) None None None (Some razao_subida_custom)
          (Some razao_descida_custom))"

subsection \<open>Live tracking: the answers of the providers\<close>

text \<open>
  The truth value that Python gives to a number or \<^verbatim>\<open>None\<close>: \<^verbatim>\<open>None\<close> and zero are false.
\<close>

definition truthy :: "real option \<Rightarrow> bool" where
  "truthy x = (case x of None \<Rightarrow> False | Some v \<Rightarrow> v \<noteq> 0)"

text \<open>A call of a provider raises or returns.\<close>

datatype 'a chamada = Excecao | Retorno 'a

text \<open>
  The primary provider. \<^verbatim>\<open>api.get_states\<close> returns \<^verbatim>\<open>None\<close> or an object whose attribute
  \<^verbatim>\<open>states\<close> is a list of state vectors; the four attributes read by the script are
  numbers or \<^verbatim>\<open>None\<close>.
\<close>

record state_vector =
  latitude :: "real option"
  longitude :: "real option"
  velocity :: "real option"
  baro_altitude :: "real option"

text \<open>
  The secondary provider. Either \<^verbatim>\<open>requests.get\<close> raises (no connection, timeout), or it
  returns a response with a status code and a body. The body is not JSON
  (\<^verbatim>\<open>response.json()\<close> raises) or it is a JSON object, of which the script reads \<^verbatim>\<open>total\<close>
  and \<^verbatim>\<open>ac\<close> (\<open>None\<close> when the key is absent), and of the first aircraft \<^verbatim>\<open>lat\<close>, \<^verbatim>\<open>lon\<close>
  and \<^verbatim>\<open>gs\<close> (\<open>None\<close> when absent, as \<^verbatim>\<open>dict.get\<close> gives).
\<close>

record aeronave_adsb =
  lat :: "real option"
  lon :: "real option"
  gs :: "real option"

record corpo_adsb =
  total :: "real option"
  ac :: "aeronave_adsb list option"

datatype corpo_http = Nao_json | Json corpo_adsb

datatype resposta_http = Falha_requisicao | Resposta nat corpo_http

text \<open>
  The method \<^verbatim>\<open>raise_for_status\<close> of the library \<^verbatim>\<open>requests\<close>, which the repository calls
  and does not contain: it raises \<^verbatim>\<open>HTTPError\<close> when the status code is from 400 to 599,
  and returns otherwise.
\<close>

definition raise_for_status :: "nat \<Rightarrow> bool" where
  "raise_for_status status_code \<longleftrightarrow> 400 \<le> status_code \<and> status_code < 600"

text \<open>
  The dictionary returned by \<^verbatim>\<open>consultar_adsb_lol\<close>, keys \<^verbatim>\<open>latitude\<close>, \<^verbatim>\<open>longitude\<close> and
  \<^verbatim>\<open>velocity\<close> (the names are taken by the state vector). The key \<^verbatim>\<open>timestamp\<close>, the
  clock's reading, is left out.
\<close>

record dados_fallback =
  fb_latitude :: "real option"
  fb_longitude :: "real option"
  fb_velocity :: "real option"

text \<open>The requests sent to the providers, in the order in which they are sent.\<close>

datatype consulta = OpenSky | ADSB_lol

text \<open>
  \<^verbatim>\<open>consultar_adsb_lol\<close>: one request; every exception is caught by the bare
  \<^verbatim>\<open>except\<close> and gives \<^verbatim>\<open>None\<close>, also the \<^verbatim>\<open>IndexError\<close> of \<^verbatim>\<open>data["ac"][0]\<close> on an empty
  list. The function returns its result and the requests it has sent.
\<close>

definition consultar_adsb_lol ::
  "(real \<Rightarrow> real) \<Rightarrow> resposta_http \<Rightarrow> dados_fallback option \<times> consulta list" where
  "consultar_adsb_lol rnd response =
     (case response of
        Falha_requisicao \<Rightarrow> (None, [ADSB_lol])
      | Resposta status_code body \<Rightarrow>
          if raise_for_status status_code then (None, [ADSB_lol])
          else
            (case body of
               Nao_json \<Rightarrow> (None, [ADSB_lol])
             | Json data \<Rightarrow>
                 if (case total data of None \<Rightarrow> 0 | Some n \<Rightarrow> n) > 0 \<and> ac data \<noteq> None then
                   (case ac data of
                      Some (a # _) \<Rightarrow>
                        (Some \<lparr>fb_latitude = lat a, fb_longitude = lon a,
                               fb_velocity =
                                 (if truthy (gs a)
                                  then Some (rnd (the (gs a) * rnd (1852 / 1000)))
                                  else None)\<rparr>,
                         [ADSB_lol])
                    | _ \<Rightarrow> (None, [ADSB_lol]))
                 else (None, [ADSB_lol])))"

text \<open>
  The variables of the script that the live-tracking block sets. \<open>velocidade_kmh\<close> is
  \<open>None\<close> while the variable is unbound.
\<close>

record rastreio =
  dados_validos :: bool
  posicao :: "(real \<times> real) option"
  velocidade_kmh :: "real option"
  state :: "state_vector option"

text \<open>Lines 317 to 331: the query of the primary provider, inside \<^verbatim>\<open>try\<close>.\<close>

definition consulta_opensky ::
  "(real \<Rightarrow> real) \<Rightarrow> state_vector list option chamada \<Rightarrow> rastreio \<times> consulta list" where
  "consulta_opensky rnd states =
     (case states of
        Retorno (Some (s # _)) \<Rightarrow>
          if truthy (latitude s) \<and> truthy (longitude s) \<and> truthy (velocity s) then
            (\<lparr>dados_validos = True, posicao = Some (the (latitude s), the (longitude s)),
              velocidade_kmh = Some (rnd (the (velocity s) * rnd (36 / 10))),
              state = Some s\<rparr>, [OpenSky])
          else
            (\<lparr>dados_validos = False, posicao = None, velocidade_kmh = None, state = Some s\<rparr>,
             [OpenSky])
      | _ \<Rightarrow>
          (\<lparr>dados_validos = False, posicao = None, velocidade_kmh = None, state = None\<rparr>,
           [OpenSky]))"

text \<open>The messages of lines 339 and 341.\<close>

datatype mensagem_ui = Info_fallback | Aviso_nao_encontrado

text \<open>
  Lines 313 to 341, with \<^verbatim>\<open>rastrear\<close> set: the primary provider, then the fallback when
  the data are not valid. The result holds the variables, the requests sent and the
  message shown.
\<close>

definition busca_em_tempo_real ::
  "(real \<Rightarrow> real) \<Rightarrow> state_vector list option chamada \<Rightarrow> resposta_http \<Rightarrow>
   rastreio \<times> consulta list \<times> mensagem_ui option" where
  "busca_em_tempo_real rnd states response =
     (case consulta_opensky rnd states of (r, qs) \<Rightarrow>
        if \<not> dados_validos r then
          (case consultar_adsb_lol rnd response of (fallback, qs') \<Rightarrow>
             (case fallback of
                Some fb \<Rightarrow>
                  if truthy (fb_latitude fb) \<and> truthy (fb_longitude fb) \<and> truthy (fb_velocity fb)
                  then
                    (r\<lparr>posicao := Some (the (fb_latitude fb), the (fb_longitude fb)),
                       velocidade_kmh := fb_velocity fb, dados_validos := True\<rparr>,
                     qs @ qs', Some Info_fallback)
                  else (r, qs @ qs', Some Aviso_nao_encontrado)
              | None \<Rightarrow> (r, qs @ qs', Some Aviso_nao_encontrado)))
        else (r, qs, None))"

subsection \<open>Live tracking: the re-estimation\<close>

text \<open>Lines 347 to 350: the current altitude in feet.\<close>

definition altitude_atual_ft :: "(real \<Rightarrow> real) \<Rightarrow> state_vector option \<Rightarrow> real \<Rightarrow> real" where
  "altitude_atual_ft rnd st altitude_cruzeiro =
     (case st of
        Some s \<Rightarrow>
          if truthy (baro_altitude s) then rnd (the (baro_altitude s) * rnd (328084 / 100000))
          else altitude_cruzeiro
      | None \<Rightarrow> altitude_cruzeiro)"

text \<open>Lines 363 to 369: the phase of the flight.\<close>

definition fase :: "(real \<Rightarrow> real) \<Rightarrow> real \<Rightarrow> real \<Rightarrow> real \<Rightarrow> string" where
  "fase rnd distancia_restante altitude_atual altitude_cruzeiro =
     (if distancia_restante < 150 then ''descida''
      else if altitude_atual < rnd (rnd (85 / 100) * altitude_cruzeiro) then ''subida''
      else ''cruzeiro'')"

text \<open>
  Lines 352 to 383: the speeds of the selected aircraft and the remaining time
  \<^verbatim>\<open>tempo_h\<close>. \<open>tipo_aeronave\<close> is the selection of the sidebar, \<open>vel_custom\<close> the speed
  entered there for a Custom aircraft. The call of \<^verbatim>\<open>calcular_perfil_de_voo\<close> passes
  \<^verbatim>\<open>distancia_total_km\<close>, \<^verbatim>\<open>tipo_aeronave\<close>, \<^verbatim>\<open>vel_custom\<close> and \<^verbatim>\<open>altitude_cruzeiro_ft\<close>
  only; the other arguments keep their default \<^verbatim>\<open>None\<close>.
\<close>

definition calculo_adaptativo ::
  "(real \<Rightarrow> real) \<Rightarrow> string \<Rightarrow> real \<Rightarrow> string \<Rightarrow> real \<Rightarrow> real \<Rightarrow> error + real" where
  "calculo_adaptativo rnd tipo_aeronave vel_custom fase_atual distancia_restante altitude_cruzeiro =
     (case (case aeronaves tipo_aeronave of
              Some p \<Rightarrow> (vel_subida_kmh p, vel_cruzeiro_kmh p, vel_descida_kmh p)
            | None \<Rightarrow> (vel_custom, vel_custom, vel_custom)) of
        (vel_subida, vel_cruzeiro, vel_descida) \<Rightarrow>
          if fase_atual = ''descida'' then py_div rnd distancia_restante vel_descida
          else if fase_atual = ''cruzeiro'' then py_div rnd distancia_restante vel_cruzeiro
          else
            (case calcular_perfil_de_voo rnd distancia_restante (Some tipo_aeronave)
                    (if tipo_aeronave = ''Custom'' then Some vel_custom else None)
                    (Some altitude_cruzeiro) None None None None None of
               Inl e \<Rightarrow> Inl e
             | Inr perfil_real \<Rightarrow> Inr (tempo_total_h perfil_real)))"

subsection \<open>What the specification says the estimator returns\<close>

text \<open>
  The specification's description of the result, field by field, for a profile with cruise
  altitude \<open>alt\<close>, speeds \<open>vs\<close>, \<open>vc\<close>, \<open>vd\<close> (climb, cruise, descent) and rates \<open>rs\<close>,
  \<open>rd\<close> (climb, descent): climb time = altitude / climb rate / 60, descent time =
  altitude / descent rate / 60, climb distance = climb speed * climb time, descent distance
  = descent speed * descent time, cruise distance = max(0, D - climb distance - descent
  distance), cruise time = cruise distance / cruise speed if the cruise distance is
  positive and 0 otherwise, total = sum of the three times.
\<close>

definition spec_perfil ::
  "(real \<Rightarrow> real) \<Rightarrow> real \<Rightarrow> real \<Rightarrow> real \<Rightarrow> real \<Rightarrow> real \<Rightarrow> real \<Rightarrow> real \<Rightarrow> perfil \<Rightarrow> bool" where
  "spec_perfil rnd D alt vs vc vd rs rd p \<longleftrightarrow>
     tempo_h (subida p) = rnd (rnd (alt / rs) / 60) \<and>
     tempo_h (descida p) = rnd (rnd (alt / rd) / 60) \<and>
     dist_km (subida p) = rnd (vs * tempo_h (subida p)) \<and>
     dist_km (descida p) = rnd (vd * tempo_h (descida p)) \<and>
     dist_km (cruzeiro p) = max 0 (rnd (rnd (D - dist_km (subida p)) - dist_km (descida p))) \<and>
     tempo_h (cruzeiro p) =
       (if dist_km (cruzeiro p) > 0 then rnd (dist_km (cruzeiro p) / vc) else 0) \<and>
     tempo_total_h p =
       rnd (rnd (tempo_h (subida p) + tempo_h (cruzeiro p)) + tempo_h (descida p))"

subsection \<open>What the specification says about the sum of the distances\<close>

text \<open>
  If the total distance is at least the climb distance plus the descent distance, the three
  distances add up to the total distance; otherwise the cruise distance and the cruise
  time are 0. The sums are sums of real numbers.
\<close>

definition spec_soma :: "real \<Rightarrow> perfil \<Rightarrow> bool" where
  "spec_soma D p \<longleftrightarrow>
     (if dist_km (subida p) + dist_km (descida p) \<le> D
      then dist_km (subida p) + dist_km (cruzeiro p) + dist_km (descida p) = D
      else dist_km (cruzeiro p) = 0 \<and> tempo_h (cruzeiro p) = 0)"

text \<open>
  The same for arithmetic that rounds: when the total distance is at least the climb
  distance plus the descent distance, the three distances add up to the total distance up
  to three rounding errors, each at most the fraction \<open>1 / 2 ^ 53\<close> of a magnitude.
\<close>

definition spec_soma_arredondada :: "real \<Rightarrow> perfil \<Rightarrow> bool" where
  "spec_soma_arredondada D p \<longleftrightarrow>
     (if dist_km (subida p) + dist_km (descida p) \<le> D
      then \<bar>dist_km (subida p) + dist_km (cruzeiro p) + dist_km (descida p) - D\<bar> \<le>
             3 * (\<bar>D\<bar> + \<bar>dist_km (subida p)\<bar> + \<bar>dist_km (descida p)\<bar>) / 2 ^ 53
      else dist_km (cruzeiro p) = 0 \<and> tempo_h (cruzeiro p) = 0)"

text \<open>
  What the proofs about the sum use of a rounding function: it keeps 0, it is monotone, it
  leaves its results unchanged, and its relative error is at most \<open>u\<close>.
\<close>

definition arredonda :: "(real \<Rightarrow> real) \<Rightarrow> real \<Rightarrow> bool" where
  "arredonda rnd u \<longleftrightarrow>
     0 \<le> u \<and> u \<le> 1 \<and> rnd 0 = 0 \<and> (\<forall>x y. x \<le> y \<longrightarrow> rnd x \<le> rnd y) \<and>
     (\<forall>x. rnd (rnd x) = rnd x) \<and> (\<forall>x. \<bar>rnd x - x\<bar> \<le> u * \<bar>x\<bar>)"

text \<open>
  Two results used below: the one of exact arithmetic for a Custom profile (850 km/h,
  35000 ft, 2000 and 1800 ft/min) over 100 km, and the one of binary64 arithmetic for the
  table's KC-30 over 1212 km.
\<close>

definition perfil_custom_100 :: perfil where
  "perfil_custom_100 =
     \<lparr>subida = \<lparr>dist_km = 2975 / 12, tempo_h = 7 / 24\<rparr>,
      cruzeiro = \<lparr>dist_km = 0, tempo_h = 0\<rparr>,
      descida = \<lparr>dist_km = 14875 / 54, tempo_h = 35 / 108\<rparr>,
      tempo_total_h = 133 / 216,
      altitude_ft = 35000\<rparr>"

definition perfil_kc30_1212 :: perfil where
  "perfil_kc30_1212 =
     \<lparr>subida = \<lparr>dist_km = 6611729921693013 / 35184372088832,
                  tempo_h = 3077459745369839 / 9007199254740992\<rparr>,
      cruzeiro = \<lparr>dist_km = 7054466603810815 / 8796093022208,
                    tempo_h = 8208833866252585 / 9007199254740992\<rparr>,
      descida = \<lparr>dist_km = 7813862634728107 / 35184372088832,
                   tempo_h = 3077459745369839 / 9007199254740992\<rparr>,
      tempo_total_h = 1795469169624033 / 1125899906842624,
      altitude_ft = 41000\<rparr>"

section \<open>Properties of the rounding\<close>

subsection \<open>Evaluating the rounding\<close>

text \<open>
  \<open>normalise\<close> finds the exponent: if \<open>x / 2 powi e\<close> lies in \<open>[2 ^ 52, 2 ^ 53)\<close>, then
  \<open>normalise\<close> returns it. So \<open>binary64\<close> is evaluated by giving the exponent.
\<close>

lemma powi2_pos: "0 < (2::real) powi e"
  by (simp add: zero_less_power_int)

lemma div_powi_antimono:
  assumes "0 < x" "a \<le> b"
  shows "x / 2 powi b \<le> x / (2 powi a :: real)"
proof -
  have "(2::real) powi a \<le> 2 powi b"
    using assms(2) by (intro power_int_increasing) auto
  then show ?thesis
    using assms(1) powi2_pos [of a] by (intro divide_left_mono) (auto intro: mult_pos_pos powi2_pos)
qed

lemma powi2_Suc: "(2::real) powi (e + 1) = 2 * 2 powi e"
  by (simp add: power_int_add)

lemma powi2_pred: "(2::real) powi (e - 1) = 2 powi e / 2"
  by (simp add: power_int_diff)

lemma binade_aux:
  "(a::real) \<le> b / 2 \<Longrightarrow> \<not> 9007199254740992 \<le> b \<Longrightarrow> 4503599627370496 \<le> a \<Longrightarrow> False"
  by argo

lemma normalise_stop:
  assumes "4503599627370496 \<le> m" "m < 9007199254740992"
  shows "normalise m e = (m, e)"
  using assms by (subst normalise.simps) simp

lemma normalise_down:
  assumes "0 < m" "m < 4503599627370496"
  shows "normalise m e = normalise (2 * m) (e - 1)"
  using assms by (subst normalise.simps) simp

lemma normalise_up:
  assumes "9007199254740992 \<le> m"
  shows "normalise m e = normalise (m / 2) (e + 1)"
  using assms by (subst normalise.simps) simp

lemma normalise_eq:
  assumes x: "0 < x" and lo: "4503599627370496 \<le> x / 2 powi e"
    and hi: "x / 2 powi e < 9007199254740992"
  shows "nat \<bar>e - e0\<bar> \<le> k \<Longrightarrow> normalise (x / 2 powi e0) e0 = (x / 2 powi e, e)"
proof (induction k arbitrary: e0)
  case 0
  then have "e0 = e"
    by simp
  with lo hi show ?case
    by (simp add: normalise_stop)
next
  case (Suc k)
  let ?m = "x / 2 powi e0"
  have m: "0 < ?m"
    using x by (simp add: powi2_pos)
  have dn: "2 * ?m = x / 2 powi (e0 - 1)"
    by (simp add: powi2_pred)
  have up: "?m / 2 = x / 2 powi (e0 + 1)"
    by (simp add: powi2_Suc)
  show ?case
  proof (cases "?m < 4503599627370496")
    case True
    have "e < e0"
    proof (rule ccontr)
      assume "\<not> e < e0"
      then have "x / 2 powi e \<le> ?m"
        using div_powi_antimono [OF x, of e0 e] by simp
      with True lo show False by simp
    qed
    with Suc.prems have "nat \<bar>e - (e0 - 1)\<bar> \<le> k"
      by simp
    from Suc.IH [OF this] show ?thesis
      by (simp only: normalise_down [OF m True] dn)
  next
    case False
    show ?thesis
    proof (cases "9007199254740992 \<le> ?m")
      case True
      have "e0 < e"
      proof (rule ccontr)
        assume "\<not> e0 < e"
        then have "?m \<le> x / 2 powi e"
          using div_powi_antimono [OF x, of e e0] by simp
        with True hi show False by simp
      qed
      with Suc.prems have "nat \<bar>e - (e0 + 1)\<bar> \<le> k"
        by simp
      from Suc.IH [OF this] show ?thesis
        by (simp only: normalise_up [OF True] up)
    next
      case hi': False
      have "e0 = e"
      proof (rule ccontr)
        assume ne: "e0 \<noteq> e"
        show False
        proof (cases "e0 < e")
          case True
          then have "x / 2 powi e \<le> x / 2 powi (e0 + 1)"
            using div_powi_antimono [OF x, of "e0 + 1" e] by simp
          then have "x / 2 powi e \<le> ?m / 2"
            by (simp only: up)
          from binade_aux [OF this hi' lo] show False .
        next
          case False
          with ne have "?m \<le> x / 2 powi (e + 1)"
            using div_powi_antimono [OF x, of "e + 1" e0] by simp
          then have "?m \<le> (x / 2 powi e) / 2"
            by (simp add: powi2_Suc)
          moreover from hi have "\<not> 9007199254740992 \<le> x / 2 powi e"
            by simp
          moreover from \<open>\<not> ?m < 4503599627370496\<close> have "4503599627370496 \<le> ?m"
            by simp
          ultimately show False
            by (rule binade_aux)
        qed
      qed
      with lo hi show ?thesis
        by (simp add: normalise_stop)
    qed
  qed
qed

lemma binary64_eq:
  assumes "x \<noteq> 0" "4503599627370496 \<le> \<bar>x\<bar> / 2 powi e" "\<bar>x\<bar> / 2 powi e < 9007199254740992"
  shows "binary64 x = sgn x * of_int (rhe (\<bar>x\<bar> / 2 powi e)) * 2 powi e"
proof -
  have "normalise (\<bar>x\<bar> / 2 powi 0) 0 = (\<bar>x\<bar> / 2 powi e, e)"
    using assms by (intro normalise_eq [where k = "nat \<bar>e\<bar>"]) auto
  with assms(1) show ?thesis
    by (simp add: binary64_def)
qed

subsection \<open>The rounding error, monotonicity, idempotence\<close>

text \<open>
  Rounding to an integer moves a number by at most one half, so \<open>binary64\<close> moves a
  number by at most its magnitude divided by \<open>2 ^ 53\<close>. \<open>binary64\<close> is odd and monotone,
  and it leaves its own results unchanged.
\<close>

lemma rhe_error: "\<bar>of_int (rhe m) - m\<bar> \<le> 1 / 2"
  unfolding rhe_def Let_def by (auto split: if_splits)

lemma rhe_of_int: "rhe (of_int n) = n"
  by (simp add: rhe_def)

lemma rhe_bounds: "\<lfloor>m\<rfloor> \<le> rhe m \<and> rhe m \<le> \<lfloor>m\<rfloor> + 1"
  by (simp add: rhe_def Let_def)

lemma rhe_mono:
  assumes "m \<le> m'"
  shows "rhe m \<le> rhe m'"
proof (cases "\<lfloor>m\<rfloor> = \<lfloor>m'\<rfloor>")
  case True
  with assms show ?thesis
    unfolding rhe_def Let_def by (auto split: if_splits)
next
  case False
  with floor_mono [OF assms] have "\<lfloor>m\<rfloor> + 1 \<le> \<lfloor>m'\<rfloor>"
    by simp
  with rhe_bounds [of m] rhe_bounds [of m'] show ?thesis
    by linarith
qed

lemma binade_exists:
  assumes "0 < (x::real)"
  shows "4503599627370496 \<le> x / 2 powi (\<lfloor>log 2 x\<rfloor> - 52) \<and>
         x / 2 powi (\<lfloor>log 2 x\<rfloor> - 52) < 9007199254740992"
proof -
  define n where "n = \<lfloor>log 2 x\<rfloor>"
  have "2 powr (of_int n) \<le> x \<and> x < 2 powr (of_int n + 1)"
    using floor_log_eq_powr_iff [of x 2 n] assms by (simp add: n_def)
  moreover have "(2::real) powr (of_int n) = 2 powi n"
    by (rule powr_real_of_int') auto
  moreover have "(2::real) powr (of_int n + 1) = 2 powi (n + 1)"
    using powr_real_of_int' [of 2 "n + 1"] by simp
  ultimately have b: "2 powi n \<le> x" "x < 2 * 2 powi n"
    by (simp_all add: powi2_Suc)
  have e: "x / 2 powi (n - 52) = x / 2 powi n * 4503599627370496"
    by (simp add: power_int_diff)
  have p: "0 < (2::real) powi n"
    by (rule powi2_pos)
  define y where "y = x / 2 powi n"
  from b p have "1 \<le> y" "y < 2"
    by (simp_all add: y_def field_simps)
  then have "4503599627370496 \<le> y * 4503599627370496 \<and> y * 4503599627370496 < 9007199254740992"
    by simp
  then show ?thesis
    unfolding n_def [symmetric] e y_def .
qed

lemma signif_bounds:
  assumes "0 < x"
  shows "4503599627370496 \<le> signif x" "signif x < 9007199254740992"
  using binade_exists [OF assms] by (simp_all add: signif_def expo_def)

lemma binary64_pos:
  assumes "0 < x"
  shows "binary64 x = of_int (rhe (signif x)) * 2 powi expo x"
  using assms signif_bounds [OF assms] binary64_eq [of x "expo x"]
  by (simp add: signif_def)

lemma binary64_0: "binary64 0 = 0"
  by (simp add: binary64_def)

lemma binary64_minus: "binary64 (- x) = - binary64 x"
  by (cases "normalise \<bar>x\<bar> 0") (simp add: binary64_def sgn_minus)

lemma rhe_signif:
  assumes "0 < x"
  shows "4503599627370496 \<le> rhe (signif x)" "rhe (signif x) \<le> 9007199254740992"
proof -
  have "rhe (of_int 4503599627370496) \<le> rhe (signif x)"
    by (rule rhe_mono) (use signif_bounds(1) [OF assms] in simp)
  then show "4503599627370496 \<le> rhe (signif x)"
    by (simp only: rhe_of_int)
  have "rhe (signif x) \<le> rhe (of_int 9007199254740992)"
    by (rule rhe_mono) (use signif_bounds(2) [OF assms] in simp)
  then show "rhe (signif x) \<le> 9007199254740992"
    by (simp only: rhe_of_int)
qed

lemma binary64_pos_bounds:
  assumes "0 < x"
  shows "4503599627370496 * 2 powi expo x \<le> binary64 x"
    and "binary64 x \<le> 9007199254740992 * 2 powi expo x"
proof -
  have p: "0 \<le> (2::real) powi expo x"
    by (simp add: powi2_pos less_imp_le)
  from rhe_signif(1) [OF assms] have "(4503599627370496::real) \<le> of_int (rhe (signif x))"
    by linarith
  from mult_right_mono [OF this p]
  show "4503599627370496 * 2 powi expo x \<le> binary64 x"
    by (simp only: binary64_pos [OF assms])
  from rhe_signif(2) [OF assms] have "of_int (rhe (signif x)) \<le> (9007199254740992::real)"
    by linarith
  from mult_right_mono [OF this p]
  show "binary64 x \<le> 9007199254740992 * 2 powi expo x"
    by (simp only: binary64_pos [OF assms])
qed

lemma binary64_gt_0:
  assumes "0 < x"
  shows "0 < binary64 x"
proof -
  have "0 < 4503599627370496 * (2::real) powi expo x"
    by (simp add: powi2_pos)
  with binary64_pos_bounds(1) [OF assms] show ?thesis
    by linarith
qed

lemma binary64_mono_pos:
  assumes "0 < x" "x \<le> y"
  shows "binary64 x \<le> binary64 y"
proof -
  have y: "0 < y"
    using assms by simp
  have "log 2 x \<le> log 2 y"
    using assms by simp
  then have le: "expo x \<le> expo y"
    by (simp add: expo_def floor_mono)
  show ?thesis
  proof (cases "expo x = expo y")
    case True
    have "signif x \<le> signif y"
      using assms(2) by (simp add: signif_def True divide_right_mono powi2_pos less_imp_le)
    then have "rhe (signif x) \<le> rhe (signif y)"
      by (rule rhe_mono)
    then have "(of_int (rhe (signif x)) :: real) \<le> of_int (rhe (signif y))"
      by simp
    then have "(of_int (rhe (signif x)) :: real) * 2 powi expo y \<le>
        of_int (rhe (signif y)) * 2 powi expo y"
      by (rule mult_right_mono) (simp add: powi2_pos less_imp_le)
    then show ?thesis
      by (simp only: binary64_pos [OF assms(1)] binary64_pos [OF y] True)
  next
    case False
    with le have "expo x + 1 \<le> expo y"
      by simp
    then have "(2::real) powi (expo x + 1) \<le> 2 powi expo y"
      by (intro power_int_increasing) simp_all
    then have "9007199254740992 * (2::real) powi expo x \<le> 4503599627370496 * 2 powi expo y"
      by (simp add: powi2_Suc)
    with binary64_pos_bounds(2) [OF assms(1)] binary64_pos_bounds(1) [OF y] show ?thesis
      by linarith
  qed
qed

lemma binary64_mono:
  assumes "x \<le> y"
  shows "binary64 x \<le> binary64 y"
proof -
  consider "0 < x" | "x \<le> 0" "0 \<le> y" | "y < 0"
    using assms by linarith
  then show ?thesis
  proof cases
    case 1
    then show ?thesis
      using assms by (rule binary64_mono_pos)
  next
    case 2
    have "binary64 x \<le> 0"
    proof (cases "x = 0")
      case True
      then show ?thesis by (simp add: binary64_0)
    next
      case False
      with 2 have "0 < - x" by simp
      from binary64_gt_0 [OF this] show ?thesis
        by (simp add: binary64_minus)
    qed
    moreover have "0 \<le> binary64 y"
    proof (cases "y = 0")
      case True
      then show ?thesis by (simp add: binary64_0)
    next
      case False
      with 2 have "0 < y" by simp
      from binary64_gt_0 [OF this] show ?thesis
        by simp
    qed
    ultimately show ?thesis
      by simp
  next
    case 3
    then have "0 < - y" "- y \<le> - x"
      using assms by simp_all
    from binary64_mono_pos [OF this] show ?thesis
      by (simp add: binary64_minus)
  qed
qed

lemma binary64_idem_pos:
  assumes "0 < x"
  shows "binary64 (binary64 x) = binary64 x"
proof -
  define n where "n = rhe (signif x)"
  define e where "e = expo x"
  define r where "r = binary64 x"
  have r: "r = of_int n * 2 powi e"
    by (simp add: r_def n_def e_def binary64_pos [OF assms])
  have n: "4503599627370496 \<le> n" "n \<le> 9007199254740992"
    using rhe_signif [OF assms] by (simp_all add: n_def)
  have rp: "0 < r" "r \<noteq> 0" "\<bar>r\<bar> = r" "sgn r = 1"
    using binary64_gt_0 [OF assms] by (simp_all add: r_def)
  show ?thesis
  proof (cases "n = 9007199254740992")
    case False
    have "\<bar>r\<bar> / 2 powi e = r / 2 powi e"
      by (simp only: rp(3))
    also have "\<dots> = of_int n"
      by (simp add: r)
    finally have q: "\<bar>r\<bar> / 2 powi e = of_int n" .
    from n False have "(4503599627370496::real) \<le> of_int n" "of_int n < (9007199254740992::real)"
      by linarith+
    then have "4503599627370496 \<le> \<bar>r\<bar> / 2 powi e" "\<bar>r\<bar> / 2 powi e < 9007199254740992"
      by (simp_all only: q)
    with rp(2) have "binary64 r = sgn r * of_int (rhe (\<bar>r\<bar> / 2 powi e)) * 2 powi e"
      by (rule binary64_eq)
    then have "binary64 r = 1 * of_int n * 2 powi e"
      by (simp only: q rp(4) rhe_of_int)
    then have "binary64 r = r"
      by (simp add: r)
    then show ?thesis
      by (simp only: r_def)
  next
    case True
    have "\<bar>r\<bar> / 2 powi (e + 1) = r / 2 powi (e + 1)"
      by (simp only: rp(3))
    also have "\<dots> = of_int 4503599627370496"
      by (simp add: r True powi2_Suc)
    finally have q: "\<bar>r\<bar> / 2 powi (e + 1) = of_int 4503599627370496" .
    have "4503599627370496 \<le> \<bar>r\<bar> / 2 powi (e + 1)"
      "\<bar>r\<bar> / 2 powi (e + 1) < 9007199254740992"
      by (simp_all add: q)
    with rp(2) have
      "binary64 r = sgn r * of_int (rhe (\<bar>r\<bar> / 2 powi (e + 1))) * 2 powi (e + 1)"
      by (rule binary64_eq)
    then have "binary64 r = 1 * of_int 4503599627370496 * 2 powi (e + 1)"
      by (simp only: q rp(4) rhe_of_int)
    then have "binary64 r = r"
      by (simp add: r True powi2_Suc)
    then show ?thesis
      by (simp only: r_def)
  qed
qed

lemma binary64_idem: "binary64 (binary64 x) = binary64 x"
proof -
  consider "0 < x" | "x = 0" | "0 < - x"
    by linarith
  then show ?thesis
  proof cases
    case 1
    then show ?thesis by (rule binary64_idem_pos)
  next
    case 2
    then show ?thesis by (simp add: binary64_0)
  next
    case 3
    from binary64_idem_pos [OF this] show ?thesis
      by (simp add: binary64_minus)
  qed
qed

lemma binary64_error: "\<bar>binary64 x - x\<bar> \<le> \<bar>x\<bar> / 9007199254740992"
proof (cases "x = 0")
  case True
  then show ?thesis by (simp add: binary64_0)
next
  case False
  define e where "e = expo \<bar>x\<bar>"
  define m where "m = signif \<bar>x\<bar>"
  have x: "0 < \<bar>x\<bar>"
    using False by simp
  have bin: "4503599627370496 \<le> m" "m < 9007199254740992"
    using signif_bounds [OF x] by (simp_all add: m_def)
  have me: "m = \<bar>x\<bar> / 2 powi e"
    by (simp add: m_def e_def signif_def)
  have b: "binary64 x = sgn x * of_int (rhe m) * 2 powi e"
    unfolding me using False bin by (intro binary64_eq) (simp_all add: me)
  have xm: "x = sgn x * m * 2 powi e"
    by (simp add: me sgn_mult_abs)
  have "binary64 x - x = sgn x * (of_int (rhe m) - m) * 2 powi e"
    by (subst b, subst (2) xm) (simp add: algebra_simps)
  then have "\<bar>binary64 x - x\<bar> = \<bar>of_int (rhe m) - m\<bar> * 2 powi e"
    using False by (simp add: abs_mult abs_sgn_eq power_int_abs)
  also have "\<dots> \<le> 1 / 2 * 2 powi e"
    by (intro mult_right_mono rhe_error) (simp add: powi2_pos less_imp_le)
  also have "\<dots> \<le> m / 9007199254740992 * 2 powi e"
    using bin(1) by (intro mult_right_mono) (simp_all add: powi2_pos less_imp_le)
  also have "\<dots> = \<bar>x\<bar> / 9007199254740992"
    by (simp add: me)
  finally show ?thesis .
qed

text \<open>
  The literal \<^verbatim>\<open>0.85\<close>, and the threshold \<^verbatim>\<open>0.85 * altitude_cruzeiro\<close> of the phase
  classification for a cruise altitude between 1 and \<open>10 ^ 9\<close> feet: it lies above half
  the cruise altitude and not above the cruise altitude.
\<close>

lemma binary64_085: "binary64 (85 / 100) = 7656119366529843 / 9007199254740992"
  by (subst binary64_eq [where e = "-53"]) (simp_all add: rhe_def power_int_minus)

lemma limiar_binary64:
  assumes "1 \<le> c" "c \<le> 1000000000"
  shows "c / 2 < binary64 (binary64 (85 / 100) * c)"
    and "binary64 (binary64 (85 / 100) * c) \<le> c"
proof -
  define p where "p = 7656119366529843 / 9007199254740992 * c"
  define r where "r = binary64 p"
  have p: "0 < p" "p \<noteq> 0" "\<bar>p\<bar> = p"
    using assms(1) by (simp_all add: p_def)
  from binary64_error [of p] have "\<bar>r - p\<bar> \<le> p / 9007199254740992"
    by (simp add: r_def p(3))
  then have "c / 2 < r \<and> r \<le> c"
    using assms(1) unfolding p_def by (simp add: abs_le_iff) argo
  moreover have "binary64 (binary64 (85 / 100) * c) = r"
    by (simp only: binary64_085 r_def p_def)
  ultimately show "c / 2 < binary64 (binary64 (85 / 100) * c)"
    and "binary64 (binary64 (85 / 100) * c) \<le> c"
    by simp_all
qed

subsection \<open>The KC-30 over 1212 km\<close>

lemma kc30_1212_binary64:
  "calcular_perfil_de_voo binary64 1212 (Some ''KC-30 (Airbus A330)'')
      None None None None None None None =
    Inr \<lparr>subida = \<lparr>dist_km = 6611729921693013 / 35184372088832,
                     tempo_h = 3077459745369839 / 9007199254740992\<rparr>,
         cruzeiro = \<lparr>dist_km = 7054466603810815 / 8796093022208,
                       tempo_h = 8208833866252585 / 9007199254740992\<rparr>,
         descida = \<lparr>dist_km = 7813862634728107 / 35184372088832,
                      tempo_h = 3077459745369839 / 9007199254740992\<rparr>,
         tempo_total_h = 1795469169624033 / 1125899906842624,
         altitude_ft = 41000\<rparr>"
proof -
  have r1: "binary64 (41000 / 2000) = 41 / 2"
    by (subst binary64_eq [where e = "-48"]) (simp_all add: rhe_def power_int_minus)
  have r2: "binary64 (41 / 2 / 60) = 3077459745369839 / 9007199254740992"
    by (subst binary64_eq [where e = "-54"]) (simp_all add: rhe_def power_int_minus)
  have r3: "binary64 (550 * (3077459745369839 / 9007199254740992)) =
      6611729921693013 / 35184372088832"
    by (subst binary64_eq [where e = "-45"]) (simp_all add: rhe_def power_int_minus)
  have r4: "binary64 (650 * (3077459745369839 / 9007199254740992)) =
      7813862634728107 / 35184372088832"
    by (subst binary64_eq [where e = "-45"]) (simp_all add: rhe_def power_int_minus)
  have r5: "binary64 (1212 - 6611729921693013 / 35184372088832) =
      4503966131246421 / 4398046511104"
    by (subst binary64_eq [where e = "-42"]) (simp_all add: rhe_def power_int_minus)
  have r6: "binary64 (4503966131246421 / 4398046511104 - 7813862634728107 / 35184372088832) =
      7054466603810815 / 8796093022208"
    by (subst binary64_eq [where e = "-43"]) (simp_all add: rhe_def power_int_minus)
  have r7: "binary64 (7054466603810815 / 8796093022208 / 880) =
      8208833866252585 / 9007199254740992"
    by (subst binary64_eq [where e = "-53"]) (simp_all add: rhe_def power_int_minus)
  have r8: "binary64 (3077459745369839 / 9007199254740992 + 8208833866252585 / 9007199254740992) =
      1410786701452803 / 1125899906842624"
    by (subst binary64_eq [where e = "-52"]) (simp_all add: rhe_def power_int_minus)
  have r9: "binary64 (1410786701452803 / 1125899906842624 + 3077459745369839 / 9007199254740992) =
      1795469169624033 / 1125899906842624"
    by (subst binary64_eq [where e = "-52"]) (simp_all add: rhe_def power_int_minus)
  have nz: "((2000::real) = 0) = False" "((880::real) = 0) = False"
    by simp_all
  have mx: "max 0 (7054466603810815 / 8796093022208 :: real) = 7054466603810815 / 8796093022208"
    by simp
  have ps: "((0::real) < 7054466603810815 / 8796093022208) = True"
    by simp
  have tab: "calcular_perfil_de_voo binary64 1212 (Some ''KC-30 (Airbus A330)'')
      None None None None None None None =
      calculos_do_perfil binary64 1212 41000 550 880 650 2000 2000"
    by (simp add: calcular_perfil_de_voo_def aeronaves_def)
  show ?thesis
    unfolding tab calculos_do_perfil_def py_div_def
    by (simp only: nz if_False if_True sum.case Let_def r1 r2 r3 r4 r5 r6 r7 r8 r9 mx ps)
qed

lemma soma_kc30_1212_binary64:
  "binary64 (binary64 (6611729921693013 / 35184372088832 + 7054466603810815 / 8796093022208) +
     7813862634728107 / 35184372088832) = 5330432371458047 / 4398046511104"
proof -
  have s1: "binary64 (6611729921693013 / 35184372088832 + 7054466603810815 / 8796093022208) =
      2176849771058517 / 2199023255552"
    by (subst binary64_eq [where e = "-43"]) (simp_all add: rhe_def power_int_minus)
  have s2: "binary64 (2176849771058517 / 2199023255552 + 7813862634728107 / 35184372088832) =
      5330432371458047 / 4398046511104"
    by (subst binary64_eq [where e = "-42"]) (simp_all add: rhe_def power_int_minus)
  show ?thesis
    by (simp only: s1 s2)
qed

section \<open>Properties of the estimator\<close>

lemma aeronaves_Custom: "aeronaves ''Custom'' = None"
  by (simp add: aeronaves_def)

lemma aeronaves_positive:
  assumes "aeronaves t = Some p"
  shows "0 < vel_subida_kmh p \<and> 0 < vel_cruzeiro_kmh p \<and> 0 < vel_descida_kmh p \<and>
         0 < razao_subida_fpm p \<and> 0 < razao_descida_fpm p"
  using assms by (auto simp: aeronaves_def split: if_splits)

lemma calculos_do_perfil_Inr:
  assumes "vc \<noteq> 0" "rs \<noteq> 0" "rd \<noteq> 0"
  shows "\<exists>p. calculos_do_perfil rnd D alt vs vc vd rs rd = Inr p \<and>
             spec_perfil rnd D alt vs vc vd rs rd p \<and> altitude_ft p = alt"
  using assms by (simp add: calculos_do_perfil_def py_div_def spec_perfil_def Let_def)

text \<open>
  C1. For every total distance and every profile whose speeds and rates are positive,
  \<^verbatim>\<open>calcular_perfil_de_voo\<close> returns a result, and the result has the climb time, descent
  time, climb distance, descent distance, clamped cruise distance, cruise time and total
  time of the specification; the total time is the sum of the three phase times. The
  profile is an entry of the table (first part) or a complete Custom profile (second
  part). The bound \<open>0 \<le> D\<close> of the specification is not needed.
\<close>

theorem calcular_perfil_de_voo_spec:
  "(aeronaves t = Some q \<longrightarrow>
      (\<exists>p. calcular_perfil_de_voo rnd D (Some t) vel_custom altitude vs0 vc0 vd0 rs0 rd0 = Inr p \<and>
           spec_perfil rnd D (altitude_cruzeiro_ft q) (vel_subida_kmh q) (vel_cruzeiro_kmh q)
             (vel_descida_kmh q) (razao_subida_fpm q) (razao_descida_fpm q) p)) \<and>
   (0 < v \<and> 0 < rs \<and> 0 < rd \<longrightarrow>
      (\<exists>p. calcular_perfil_de_voo rnd D (Some ''Custom'') (Some v) (Some alt) vs0 vc0 vd0
             (Some rs) (Some rd) = Inr p \<and>
           spec_perfil rnd D alt v v v rs rd p))"
proof (intro conjI impI)
  assume q: "aeronaves t = Some q"
  from aeronaves_positive [OF q]
  have "vel_cruzeiro_kmh q \<noteq> 0" "razao_subida_fpm q \<noteq> 0" "razao_descida_fpm q \<noteq> 0"
    by auto
  from calculos_do_perfil_Inr [OF this] q
  show "\<exists>p. calcular_perfil_de_voo rnd D (Some t) vel_custom altitude vs0 vc0 vd0 rs0 rd0 = Inr p \<and>
           spec_perfil rnd D (altitude_cruzeiro_ft q) (vel_subida_kmh q) (vel_cruzeiro_kmh q)
             (vel_descida_kmh q) (razao_subida_fpm q) (razao_descida_fpm q) p"
    by (simp add: calcular_perfil_de_voo_def) blast
next
  assume "0 < v \<and> 0 < rs \<and> 0 < rd"
  then have "v \<noteq> 0" "rs \<noteq> 0" "rd \<noteq> 0"
    by auto
  from calculos_do_perfil_Inr [OF this]
  show "\<exists>p. calcular_perfil_de_voo rnd D (Some ''Custom'') (Some v) (Some alt) vs0 vc0 vd0
             (Some rs) (Some rd) = Inr p \<and> spec_perfil rnd D alt v v v rs rd p"
    by (simp add: calcular_perfil_de_voo_def aeronaves_Custom) blast
qed

theorem calcular_perfil_de_voo_spec_witness:
  "(\<exists>p. calcular_perfil_de_voo binary64 357 (Some ''VC-1 (Airbus A319)'')
          None None None None None None None = Inr p \<and>
        spec_perfil binary64 357 35000 500 840 600 2000 1800 p) \<and>
   (\<exists>p. calcular_perfil_de_voo binary64 357 (Some ''Custom'') (Some 850) (Some 35000)
          None None None (Some 2000) (Some 1800) = Inr p \<and>
        spec_perfil binary64 357 35000 850 850 850 2000 1800 p)"
  using calcular_perfil_de_voo_spec [of "''VC-1 (Airbus A319)''"
      "\<lparr>altitude_cruzeiro_ft = 35000, vel_subida_kmh = 500, vel_cruzeiro_kmh = 840,
        vel_descida_kmh = 600, razao_subida_fpm = 2000, razao_descida_fpm = 1800,
        subida_descida = 314\<rparr>"
      binary64 357 None None None None None None None 850 2000 1800 35000]
  by (simp add: aeronaves_def)

text \<open>
  C3. A call with \<^verbatim>\<open>tipo_aeronave = 'Custom'\<close> in which the speed, the cruise altitude, the
  climb rate or the descent rate is \<^verbatim>\<open>None\<close> raises the \<^verbatim>\<open>ValueError\<close> of the Custom
  branch: it returns no result.
\<close>

theorem custom_incompleto_ValueError:
  assumes "vel_custom = None \<or> altitude = None \<or> razao_subida = None \<or> razao_descida = None"
  shows "calcular_perfil_de_voo rnd D (Some ''Custom'') vel_custom altitude vs0 vc0 vd0
           razao_subida razao_descida = Inl (ValueError Custom_incompleto)"
  using assms
  by (auto simp: calcular_perfil_de_voo_def aeronaves_Custom split: option.splits)

theorem custom_incompleto_ValueError_witness:
  "calcular_perfil_de_voo binary64 357 (Some ''Custom'') (Some 850) (Some 35000) None None None
     None (Some 1800) = Inl (ValueError Custom_incompleto)"
  using custom_incompleto_ValueError [of "Some 850" "Some 35000" None "Some 1800"
      binary64 357 None None None]
  by simp

text \<open>
  C9. When the cruise speed, the climb rate and the descent rate are positive, the three
  divisions by them have a divisor other than zero and the computation does not raise
  \<^verbatim>\<open>ZeroDivisionError\<close>: on the local variables (first part) and for the whole function
  (second part), where the table's entries are positive and the Custom values are the
  arguments.
\<close>

theorem sem_ZeroDivisionError:
  "(0 < vc \<and> 0 < rs \<and> 0 < rd \<longrightarrow>
      (\<exists>p. calculos_do_perfil rnd D alt vs vc vd rs rd = Inr p)) \<and>
   ((\<forall>v. vel_custom = Some v \<longrightarrow> 0 < v) \<and> (\<forall>r. razao_subida = Some r \<longrightarrow> 0 < r) \<and>
    (\<forall>r. razao_descida = Some r \<longrightarrow> 0 < r) \<longrightarrow>
      calcular_perfil_de_voo rnd D tipo vel_custom altitude vs0 vc0 vd0 razao_subida
        razao_descida \<noteq> Inl ZeroDivisionError)"
proof (intro conjI impI)
  assume "0 < vc \<and> 0 < rs \<and> 0 < rd"
  then have "vc \<noteq> 0" "rs \<noteq> 0" "rd \<noteq> 0"
    by auto
  from calculos_do_perfil_Inr [OF this]
  show "\<exists>p. calculos_do_perfil rnd D alt vs vc vd rs rd = Inr p"
    by blast
next
  assume pos: "(\<forall>v. vel_custom = Some v \<longrightarrow> 0 < v) \<and> (\<forall>r. razao_subida = Some r \<longrightarrow> 0 < r) \<and>
    (\<forall>r. razao_descida = Some r \<longrightarrow> 0 < r)"
  have tab: "calculos_do_perfil rnd D (altitude_cruzeiro_ft q) (vel_subida_kmh q)
      (vel_cruzeiro_kmh q) (vel_descida_kmh q) (razao_subida_fpm q) (razao_descida_fpm q)
      \<noteq> Inl ZeroDivisionError" if "aeronaves t = Some q" for t q
  proof -
    from aeronaves_positive [OF that]
    have "vel_cruzeiro_kmh q \<noteq> 0" "razao_subida_fpm q \<noteq> 0" "razao_descida_fpm q \<noteq> 0"
      by auto
    from calculos_do_perfil_Inr [OF this] show ?thesis
      by (metis Inl_Inr_False)
  qed
  have cus: "calculos_do_perfil rnd D a v v v r1 r2 \<noteq> Inl ZeroDivisionError"
    if "0 < v" "0 < r1" "0 < r2" for a v r1 r2
  proof -
    from that have "v \<noteq> 0" "r1 \<noteq> 0" "r2 \<noteq> 0"
      by auto
    from calculos_do_perfil_Inr [OF this] show ?thesis
      by (metis Inl_Inr_False)
  qed
  show "calcular_perfil_de_voo rnd D tipo vel_custom altitude vs0 vc0 vd0 razao_subida
        razao_descida \<noteq> Inl ZeroDivisionError"
    using pos tab cus
    by (auto simp: calcular_perfil_de_voo_def split: option.splits)
qed

theorem sem_ZeroDivisionError_witness:
  "(\<exists>p. calculos_do_perfil binary64 357 35000 500 840 600 2000 1800 = Inr p) \<and>
   calcular_perfil_de_voo binary64 357 (Some ''Custom'') (Some 850) (Some 35000) None None None
     (Some 2000) (Some 1800) \<noteq> Inl ZeroDivisionError"
  using sem_ZeroDivisionError [of 840 2000 1800 binary64 357 35000 500 600
      "Some 850" "Some 2000" "Some 1800" "Some ''Custom''" "Some 35000" None None None]
  by simp

subsection \<open>The sum of the three distances\<close>

lemma calculos_do_perfil_cruzeiro:
  assumes "calculos_do_perfil rnd D alt vs vc vd rs rd = Inr p"
  shows "dist_km (cruzeiro p) = max 0 (rnd (rnd (D - dist_km (subida p)) - dist_km (descida p)))"
    and "dist_km (cruzeiro p) \<le> 0 \<Longrightarrow> tempo_h (cruzeiro p) = 0"
  using assms
  by (auto simp: calculos_do_perfil_def py_div_def Let_def split: if_splits)

lemma spec_soma_exact:
  assumes "calculos_do_perfil (\<lambda>x. x) D alt vs vc vd rs rd = Inr p"
  shows "spec_soma D p"
  using calculos_do_perfil_cruzeiro [OF assms]
  by (auto simp: spec_soma_def max_def split: if_splits)

lemma arredonda_binary64: "arredonda binary64 (1 / 2 ^ 53)"
  using binary64_error by (simp add: arredonda_def binary64_0 binary64_mono binary64_idem)

lemma arredonda_exato: "arredonda (\<lambda>x. x) 0"
  by (simp add: arredonda_def)

lemma calculos_do_perfil_descida:
  assumes "calculos_do_perfil rnd D alt vs vc vd rs rd = Inr p"
  shows "\<exists>y. dist_km (descida p) = rnd y"
  using assms
  by (auto simp: calculos_do_perfil_def py_div_def Let_def split: if_splits)

lemma soma_arredondada:
  assumes r: "arredonda rnd u"
    and c: "calculos_do_perfil rnd D alt vs vc vd rs rd = Inr p"
  shows "D < dist_km (subida p) + dist_km (descida p) \<Longrightarrow>
           dist_km (cruzeiro p) = 0 \<and> tempo_h (cruzeiro p) = 0"
    and "dist_km (subida p) + dist_km (descida p) \<le> D \<Longrightarrow>
           \<bar>dist_km (subida p) + dist_km (cruzeiro p) + dist_km (descida p) - D\<bar> \<le>
             3 * u * (\<bar>D\<bar> + \<bar>dist_km (subida p)\<bar> + \<bar>dist_km (descida p)\<bar>)"
proof -
  define a where "a = dist_km (subida p)"
  define b where "b = dist_km (descida p)"
  define x1 where "x1 = rnd (D - a)"
  define y where "y = rnd (x1 - b)"
  from r have u: "0 \<le> u" "u \<le> 1" and z: "rnd 0 = 0"
    and mono: "\<And>x y. x \<le> y \<Longrightarrow> rnd x \<le> rnd y"
    and idem: "\<And>x. rnd (rnd x) = rnd x"
    and err: "\<And>x. \<bar>rnd x - x\<bar> \<le> u * \<bar>x\<bar>"
    by (simp_all add: arredonda_def)
  from calculos_do_perfil_descida [OF c] idem have b: "rnd b = b"
    by (auto simp: b_def)
  from calculos_do_perfil_cruzeiro(1) [OF c] have cr: "dist_km (cruzeiro p) = max 0 y"
    by (simp add: y_def x1_def a_def b_def)
  {
    assume "D < dist_km (subida p) + dist_km (descida p)"
    then have "D - a \<le> b"
      by (simp add: a_def b_def)
    from mono [OF this] b have "x1 - b \<le> 0"
      by (simp add: x1_def)
    from mono [OF this] z have "y \<le> 0"
      by (simp add: y_def)
    with cr have d: "dist_km (cruzeiro p) = 0"
      by simp
    with calculos_do_perfil_cruzeiro(2) [OF c]
    show "dist_km (cruzeiro p) = 0 \<and> tempo_h (cruzeiro p) = 0"
      by simp
  }
  {
    assume "dist_km (subida p) + dist_km (descida p) \<le> D"
    then have "b \<le> D - a"
      by (simp add: a_def b_def)
    from mono [OF this] b have "0 \<le> x1 - b"
      by (simp add: x1_def)
    from mono [OF this] z have "0 \<le> y"
      by (simp add: y_def)
    with cr have d: "dist_km (cruzeiro p) = y"
      by simp
    define K where "K = \<bar>D\<bar> + \<bar>a\<bar>"
    have K: "0 \<le> K" "\<bar>D - a\<bar> \<le> K"
      by (simp_all add: K_def)
    have uK: "u * K \<le> K"
      using u K(1) by (simp add: mult_left_le_one_le)
    have "\<bar>x1 - (D - a)\<bar> \<le> u * \<bar>D - a\<bar>"
      unfolding x1_def by (rule err)
    also have "\<dots> \<le> u * K"
      using K(2) u(1) by (rule mult_left_mono)
    finally have e1: "\<bar>x1 - (D - a)\<bar> \<le> u * K" .
    with K(2) uK have "\<bar>x1\<bar> \<le> 2 * K"
      by linarith
    then have xb: "\<bar>x1 - b\<bar> \<le> 2 * K + \<bar>b\<bar>"
      by linarith
    have "\<bar>y - (x1 - b)\<bar> \<le> u * \<bar>x1 - b\<bar>"
      unfolding y_def by (rule err)
    also have "\<dots> \<le> u * (2 * K + \<bar>b\<bar>)"
      using xb u(1) by (rule mult_left_mono)
    finally have e2: "\<bar>y - (x1 - b)\<bar> \<le> u * (2 * K + \<bar>b\<bar>)" .
    have "u * \<bar>b\<bar> \<le> 3 * (u * \<bar>b\<bar>)"
      using u(1) by (simp add: mult_nonneg_nonneg)
    then have "u * K + u * (2 * K + \<bar>b\<bar>) \<le> 3 * u * (K + \<bar>b\<bar>)"
      by (simp add: algebra_simps)
    with e1 e2 have "\<bar>a + y + b - D\<bar> \<le> 3 * u * (K + \<bar>b\<bar>)"
      by linarith
    then show "\<bar>dist_km (subida p) + dist_km (cruzeiro p) + dist_km (descida p) - D\<bar> \<le>
             3 * u * (\<bar>D\<bar> + \<bar>dist_km (subida p)\<bar> + \<bar>dist_km (descida p)\<bar>)"
      by (simp add: d K_def a_def b_def)
  }
qed

lemma spec_soma_binary64:
  assumes "calculos_do_perfil binary64 D alt vs vc vd rs rd = Inr p"
  shows "spec_soma_arredondada D p"
  using soma_arredondada [OF arredonda_binary64 assms]
  by (auto simp: spec_soma_arredondada_def)


lemma soma_tabela:
  assumes q: "aeronaves t = Some q"
  shows "\<exists>p. calcular_perfil_de_voo binary64 D (Some t) vel_custom altitude vs0 vc0 vd0 rs0 rd0 =
             Inr p \<and> spec_soma_arredondada D p"
    and "\<exists>p. calcular_perfil_de_voo (\<lambda>x. x) D (Some t) vel_custom altitude vs0 vc0 vd0 rs0 rd0 =
             Inr p \<and> spec_soma D p"
proof -
  from aeronaves_positive [OF q]
  have nz: "vel_cruzeiro_kmh q \<noteq> 0" "razao_subida_fpm q \<noteq> 0" "razao_descida_fpm q \<noteq> 0"
    by auto
  from calculos_do_perfil_Inr [OF nz]
  obtain p where p: "calculos_do_perfil binary64 D (altitude_cruzeiro_ft q) (vel_subida_kmh q)
      (vel_cruzeiro_kmh q) (vel_descida_kmh q) (razao_subida_fpm q) (razao_descida_fpm q) = Inr p"
    by blast
  with q spec_soma_binary64 [OF p]
  show "\<exists>p. calcular_perfil_de_voo binary64 D (Some t) vel_custom altitude vs0 vc0 vd0 rs0 rd0 =
             Inr p \<and> spec_soma_arredondada D p"
    by (simp add: calcular_perfil_de_voo_def)
  from calculos_do_perfil_Inr [OF nz]
  obtain p' where p': "calculos_do_perfil (\<lambda>x. x) D (altitude_cruzeiro_ft q) (vel_subida_kmh q)
      (vel_cruzeiro_kmh q) (vel_descida_kmh q) (razao_subida_fpm q) (razao_descida_fpm q) = Inr p'"
    by blast
  with q spec_soma_exact [OF p']
  show "\<exists>p. calcular_perfil_de_voo (\<lambda>x. x) D (Some t) vel_custom altitude vs0 vc0 vd0 rs0 rd0 =
             Inr p \<and> spec_soma D p"
    by (simp add: calcular_perfil_de_voo_def)
qed

lemma soma_Custom:
  assumes "0 < v" "0 < rs" "0 < rd"
  shows "\<exists>p. calcular_perfil_de_voo binary64 D (Some ''Custom'') (Some v) (Some alt) vs0 vc0 vd0
             (Some rs) (Some rd) = Inr p \<and> spec_soma_arredondada D p"
    and "\<exists>p. calcular_perfil_de_voo (\<lambda>x. x) D (Some ''Custom'') (Some v) (Some alt) vs0 vc0 vd0
             (Some rs) (Some rd) = Inr p \<and> spec_soma D p"
proof -
  from assms have nz: "v \<noteq> 0" "rs \<noteq> 0" "rd \<noteq> 0"
    by auto
  from calculos_do_perfil_Inr [OF nz]
  obtain p where p: "calculos_do_perfil binary64 D alt v v v rs rd = Inr p"
    by blast
  with spec_soma_binary64 [OF p]
  show "\<exists>p. calcular_perfil_de_voo binary64 D (Some ''Custom'') (Some v) (Some alt) vs0 vc0 vd0
             (Some rs) (Some rd) = Inr p \<and> spec_soma_arredondada D p"
    by (simp add: calcular_perfil_de_voo_def aeronaves_Custom)
  from calculos_do_perfil_Inr [OF nz]
  obtain p' where p': "calculos_do_perfil (\<lambda>x. x) D alt v v v rs rd = Inr p'"
    by blast
  with spec_soma_exact [OF p']
  show "\<exists>p. calcular_perfil_de_voo (\<lambda>x. x) D (Some ''Custom'') (Some v) (Some alt) vs0 vc0 vd0
             (Some rs) (Some rd) = Inr p \<and> spec_soma D p"
    by (simp add: calcular_perfil_de_voo_def aeronaves_Custom)
qed

text \<open>
  C2, as amended. For a table entry and for a complete Custom profile with positive speed
  and rates the function returns a result, in binary64 arithmetic and in exact arithmetic.
  If the total distance is below the climb distance plus the descent distance, the cruise
  distance and the cruise time are exactly 0. Otherwise the three distances add up to the
  total distance: exactly in exact arithmetic, and in binary64 arithmetic with an error of
  at most \<open>3 * (\<bar>D\<bar> + \<bar>climb\<bar> + \<bar>descent\<bar>) / 2 ^ 53\<close>.
\<close>

theorem soma_das_distancias:
  "(aeronaves t = Some q \<longrightarrow>
      (\<exists>p. calcular_perfil_de_voo binary64 D (Some t) vel_custom altitude vs0 vc0 vd0 rs0 rd0 =
             Inr p \<and> spec_soma_arredondada D p) \<and>
      (\<exists>p. calcular_perfil_de_voo (\<lambda>x. x) D (Some t) vel_custom altitude vs0 vc0 vd0 rs0 rd0 =
             Inr p \<and> spec_soma D p)) \<and>
   (0 < v \<and> 0 < rs \<and> 0 < rd \<longrightarrow>
      (\<exists>p. calcular_perfil_de_voo binary64 D (Some ''Custom'') (Some v) (Some alt) vs0 vc0 vd0
             (Some rs) (Some rd) = Inr p \<and> spec_soma_arredondada D p) \<and>
      (\<exists>p. calcular_perfil_de_voo (\<lambda>x. x) D (Some ''Custom'') (Some v) (Some alt) vs0 vc0 vd0
             (Some rs) (Some rd) = Inr p \<and> spec_soma D p))"
  using soma_tabela [of t q D vel_custom altitude vs0 vc0 vd0 rs0 rd0]
    soma_Custom [of v rs rd D alt vs0 vc0 vd0]
  by blast

theorem soma_das_distancias_witness:
  "dist_km (subida perfil_kc30_1212) + dist_km (descida perfil_kc30_1212) \<le> 1212 \<and>
   spec_soma_arredondada 1212 perfil_kc30_1212 \<and>
   (\<exists>p. calcular_perfil_de_voo (\<lambda>x. x) 1212 (Some ''KC-30 (Airbus A330)'')
          None None None None None None None = Inr p \<and> spec_soma 1212 p) \<and>
   \<not> dist_km (subida perfil_custom_100) + dist_km (descida perfil_custom_100) \<le> 100 \<and>
   spec_soma 100 perfil_custom_100 \<and>
   (\<exists>p. calcular_perfil_de_voo binary64 100 (Some ''Custom'') (Some 850) (Some 35000)
          None None None (Some 2000) (Some 1800) = Inr p \<and> spec_soma_arredondada 100 p)"
proof -
  have t: "aeronaves ''KC-30 (Airbus A330)'' =
      Some \<lparr>altitude_cruzeiro_ft = 41000, vel_subida_kmh = 550, vel_cruzeiro_kmh = 880,
        vel_descida_kmh = 650, razao_subida_fpm = 2000, razao_descida_fpm = 2000,
        subida_descida = 362\<rparr>"
    by (simp add: aeronaves_def)
  have pos: "(0::real) < 850 \<and> (0::real) < 2000 \<and> (0::real) < 1800"
    by simp
  have k: "calcular_perfil_de_voo binary64 1212 (Some ''KC-30 (Airbus A330)'')
      None None None None None None None = Inr perfil_kc30_1212"
    by (simp only: kc30_1212_binary64 perfil_kc30_1212_def)
  have c: "calcular_perfil_de_voo (\<lambda>x. x) 100 (Some ''Custom'') (Some 850) (Some 35000)
          None None None (Some 2000) (Some 1800) = Inr perfil_custom_100"
    by (simp add: calcular_perfil_de_voo_def aeronaves_Custom calculos_do_perfil_def py_div_def
        perfil_custom_100_def)
  have s1: "dist_km (subida perfil_kc30_1212) + dist_km (descida perfil_kc30_1212) \<le> 1212"
    by (simp add: perfil_kc30_1212_def)
  have s2: "\<not> dist_km (subida perfil_custom_100) + dist_km (descida perfil_custom_100) \<le> 100"
    by (simp add: perfil_custom_100_def)
  from soma_das_distancias [where t = "''KC-30 (Airbus A330)''" and D = 1212
      and vel_custom = None and altitude = None and ?vs0.0 = None and ?vc0.0 = None
      and ?vd0.0 = None and ?rs0.0 = None and ?rd0.0 = None and v = 850 and rs = 2000
      and rd = 1800 and alt = 35000] t k
  have a: "spec_soma_arredondada 1212 perfil_kc30_1212"
    "\<exists>p. calcular_perfil_de_voo (\<lambda>x. x) 1212 (Some ''KC-30 (Airbus A330)'')
          None None None None None None None = Inr p \<and> spec_soma 1212 p"
    by simp_all
  from soma_das_distancias [where t = "''KC-30 (Airbus A330)''" and D = 100
      and vel_custom = None and altitude = None and ?vs0.0 = None and ?vc0.0 = None
      and ?vd0.0 = None and ?rs0.0 = None and ?rd0.0 = None and v = 850 and rs = 2000
      and rd = 1800 and alt = 35000] pos c
  have b: "spec_soma 100 perfil_custom_100"
    "\<exists>p. calcular_perfil_de_voo binary64 100 (Some ''Custom'') (Some 850) (Some 35000)
          None None None (Some 2000) (Some 1800) = Inr p \<and> spec_soma_arredondada 100 p"
    by simp_all
  from s1 s2 a b show ?thesis
    by blast
qed

text \<open>
  The sum is not exact in binary64 arithmetic: for the KC-30 over 1212 km the call returns
  \<open>perfil_kc30_1212\<close>, whose climb and descent distances add up to less than 1212, whose
  three distances do not add up to 1212 as real numbers, and whose three distances added
  with binary64 rounding (climb + cruise + descent) give 1211.9999999999998.
\<close>

theorem soma_das_distancias_counterexample:
  "calcular_perfil_de_voo binary64 1212 (Some ''KC-30 (Airbus A330)'')
      None None None None None None None = Inr perfil_kc30_1212 \<and>
   \<not> spec_soma 1212 perfil_kc30_1212 \<and>
   binary64 (binary64 (dist_km (subida perfil_kc30_1212) + dist_km (cruzeiro perfil_kc30_1212)) +
     dist_km (descida perfil_kc30_1212)) \<noteq> 1212"
proof (intro conjI)
  show "calcular_perfil_de_voo binary64 1212 (Some ''KC-30 (Airbus A330)'')
      None None None None None None None = Inr perfil_kc30_1212"
    by (simp only: kc30_1212_binary64 perfil_kc30_1212_def)
  show "\<not> spec_soma 1212 perfil_kc30_1212"
    by (simp add: spec_soma_def perfil_kc30_1212_def)
  have "binary64 (binary64 (dist_km (subida perfil_kc30_1212) + dist_km (cruzeiro perfil_kc30_1212)) +
     dist_km (descida perfil_kc30_1212)) = 5330432371458047 / 4398046511104"
    unfolding perfil_kc30_1212_def perfil.select_convs trecho.select_convs
    by (rule soma_kc30_1212_binary64)
  then show "binary64 (binary64 (dist_km (subida perfil_kc30_1212) + dist_km (cruzeiro perfil_kc30_1212)) +
     dist_km (descida perfil_kc30_1212)) \<noteq> 1212"
    by simp
qed

section \<open>Properties of the live tracking\<close>

lemma consulta_opensky_log: "snd (consulta_opensky rnd states) = [OpenSky]"
  by (simp add: consulta_opensky_def split: chamada.splits option.splits list.splits)

lemma consultar_adsb_lol_log: "snd (consultar_adsb_lol rnd response) = [ADSB_lol]"
  by (simp add: consultar_adsb_lol_def
      split: resposta_http.splits corpo_http.splits option.splits list.splits)

lemma consulta_opensky_validos:
  "dados_validos (fst (consulta_opensky rnd states)) \<longleftrightarrow>
     (\<exists>s ss. states = Retorno (Some (s # ss)) \<and>
        truthy (latitude s) \<and> truthy (longitude s) \<and> truthy (velocity s))"
  by (simp add: consulta_opensky_def split: chamada.splits option.splits list.splits)

lemma busca_consultas:
  "fst (snd (busca_em_tempo_real rnd states response)) =
     (if dados_validos (fst (consulta_opensky rnd states)) then [OpenSky]
      else [OpenSky, ADSB_lol])"
proof -
  obtain r qs where c: "consulta_opensky rnd states = (r, qs)"
    by (cases "consulta_opensky rnd states")
  obtain f qs' where a: "consultar_adsb_lol rnd response = (f, qs')"
    by (cases "consultar_adsb_lol rnd response")
  from c consulta_opensky_log [of rnd states] have qs: "qs = [OpenSky]"
    by simp
  from a consultar_adsb_lol_log [of rnd response] have qs': "qs' = [ADSB_lol]"
    by simp
  show ?thesis
    by (simp add: busca_em_tempo_real_def c a qs qs' split: option.splits)
qed

lemma busca_sem_dados:
  assumes "\<not> dados_validos (fst (busca_em_tempo_real rnd states response))"
  shows "snd (busca_em_tempo_real rnd states response) =
           ([OpenSky, ADSB_lol], Some Aviso_nao_encontrado)"
proof -
  obtain r qs where c: "consulta_opensky rnd states = (r, qs)"
    by (cases "consulta_opensky rnd states")
  obtain f qs' where a: "consultar_adsb_lol rnd response = (f, qs')"
    by (cases "consultar_adsb_lol rnd response")
  from c consulta_opensky_log [of rnd states] have qs: "qs = [OpenSky]"
    by simp
  from a consultar_adsb_lol_log [of rnd response] have qs': "qs' = [ADSB_lol]"
    by simp
  from assms show ?thesis
    by (cases f) (auto simp: busca_em_tempo_real_def c a qs qs' split: if_splits)
qed

lemma busca_fallback_None:
  assumes "\<not> dados_validos (fst (consulta_opensky rnd states))"
    and "fst (consultar_adsb_lol rnd response) = None"
  shows "\<not> dados_validos (fst (busca_em_tempo_real rnd states response))"
proof -
  obtain r qs where c: "consulta_opensky rnd states = (r, qs)"
    by (cases "consulta_opensky rnd states")
  obtain f qs' where a: "consultar_adsb_lol rnd response = (f, qs')"
    by (cases "consultar_adsb_lol rnd response")
  from assms show ?thesis
    by (simp add: busca_em_tempo_real_def c a)
qed


text \<open>
  C4. The phase is \<^verbatim>\<open>descida\<close> (descent) exactly when the remaining distance is below
  150 km; otherwise it is \<^verbatim>\<open>subida\<close> (climb) exactly when the current altitude is below
  the product of 0.85 and the cruise altitude as the code computes it; otherwise it is
  \<^verbatim>\<open>cruzeiro\<close> (cruise). A remaining distance of 100 km gives descent. With 1000 km to
  go, half the cruise altitude gives climb and the cruise altitude itself gives cruise:
  in exact arithmetic for a positive cruise altitude, in binary64 arithmetic for a cruise
  altitude between 1 and \<open>10 ^ 9\<close> feet.
\<close>

theorem fase_limiares:
  "(fase rnd d a c = ''descida'' \<longleftrightarrow> d < 150) \<and>
   (fase rnd d a c = ''subida'' \<longleftrightarrow> \<not> d < 150 \<and> a < rnd (rnd (85 / 100) * c)) \<and>
   (fase rnd d a c = ''cruzeiro'' \<longleftrightarrow> \<not> d < 150 \<and> \<not> a < rnd (rnd (85 / 100) * c)) \<and>
   fase rnd 100 a c = ''descida'' \<and>
   (0 < c \<longrightarrow> fase (\<lambda>x. x) 1000 (c / 2) c = ''subida'' \<and> fase (\<lambda>x. x) 1000 c c = ''cruzeiro'') \<and>
   (1 \<le> c \<and> c \<le> 1000000000 \<longrightarrow>
      fase binary64 1000 (c / 2) c = ''subida'' \<and> fase binary64 1000 c c = ''cruzeiro'')"
proof (intro conjI impI)
  assume c: "1 \<le> c \<and> c \<le> 1000000000"
  then have "c / 2 < binary64 (binary64 (85 / 100) * c)"
    by (intro limiar_binary64) simp_all
  then show "fase binary64 1000 (c / 2) c = ''subida''"
    by (simp only: fase_def) simp
  from c have "binary64 (binary64 (85 / 100) * c) \<le> c"
    by (intro limiar_binary64) simp_all
  then show "fase binary64 1000 c c = ''cruzeiro''"
    by (simp only: fase_def) simp
qed (simp_all add: fase_def)

theorem fase_limiares_witness:
  "fase (\<lambda>x. x) 1000 (35000 / 2) 35000 = ''subida'' \<and> fase (\<lambda>x. x) 1000 35000 35000 = ''cruzeiro'' \<and>
   fase binary64 1000 (35000 / 2) 35000 = ''subida'' \<and> fase binary64 1000 35000 35000 = ''cruzeiro''"
  using fase_limiares [of "\<lambda>x. x" 1000 35000 35000]
  by simp

lemma calculo_adaptativo_Custom_subida:
  "calculo_adaptativo rnd ''Custom'' vel_custom ''subida'' distancia_restante altitude_cruzeiro =
     Inl (ValueError Custom_incompleto)"
  by (simp add: calculo_adaptativo_def aeronaves_Custom calcular_perfil_de_voo_def)

text \<open>
  C5. For a Custom aircraft in the climb phase the call of \<^verbatim>\<open>calcular_perfil_de_voo\<close>
  raises, whatever the speed, the distance and the altitude (lemma above): the climb and
  descent rates are not passed, so the test of the Custom branch finds \<^verbatim>\<open>None\<close>. With
  1000 km to go at 10000 ft, for a Custom aircraft of 850 km/h and a cruise altitude of
  35000 ft, the phase is climb and no remaining time is computed.
\<close>

theorem reestimativa_Custom_subida:
  "fase binary64 1000 10000 35000 = ''subida'' \<and>
   calculo_adaptativo binary64 ''Custom'' 850 (fase binary64 1000 10000 35000) 1000 35000 =
     Inl (ValueError Custom_incompleto)"
proof -
  have "(35000::real) / 2 < binary64 (binary64 (85 / 100) * 35000)"
    by (intro limiar_binary64) simp_all
  then have f: "fase binary64 1000 10000 35000 = ''subida''"
    by (simp only: fase_def) simp
  show ?thesis
    by (simp only: f calculo_adaptativo_Custom_subida)
qed

text \<open>
  The call for the theoretical estimate passes the rates and returns a result for the same
  aircraft.
\<close>

lemma perfil_teorico_Custom:
  assumes "0 < v" "0 < rs" "0 < rd"
  shows "\<exists>p. perfil_teorico rnd d ''Custom'' v alt rs rd = Inr p"
proof -
  from assms have "v \<noteq> 0" "rs \<noteq> 0" "rd \<noteq> 0"
    by auto
  from calculos_do_perfil_Inr [OF this] obtain p where
    "calculos_do_perfil rnd d alt v v v rs rd = Inr p"
    by blast
  then show ?thesis
    by (simp add: perfil_teorico_def aeronaves_Custom calcular_perfil_de_voo_def)
qed

text \<open>
  The other paths do what the specification says: descent and cruise divide the remaining
  distance by the speed of the phase, and for an aircraft of the table the climb phase
  takes the total time of a fresh profile over the remaining distance.
\<close>

lemma calculo_adaptativo_descida_cruzeiro:
  "calculo_adaptativo rnd ''Custom'' v ''descida'' d c = py_div rnd d v"
  "calculo_adaptativo rnd ''Custom'' v ''cruzeiro'' d c = py_div rnd d v"
  "aeronaves t = Some q \<Longrightarrow>
     calculo_adaptativo rnd t v ''descida'' d c = Inr (rnd (d / vel_descida_kmh q))"
  "aeronaves t = Some q \<Longrightarrow>
     calculo_adaptativo rnd t v ''cruzeiro'' d c = Inr (rnd (d / vel_cruzeiro_kmh q))"
  using aeronaves_positive [of t q]
  by (simp_all add: calculo_adaptativo_def aeronaves_Custom py_div_def)

lemma calculo_adaptativo_tabela_subida:
  assumes "aeronaves t = Some q"
  shows "\<exists>p. calcular_perfil_de_voo rnd d (Some t) None None None None None None None = Inr p \<and>
             calculo_adaptativo rnd t v ''subida'' d c = Inr (tempo_total_h p)"
proof -
  from aeronaves_positive [OF assms]
  have "vel_cruzeiro_kmh q \<noteq> 0" "razao_subida_fpm q \<noteq> 0" "razao_descida_fpm q \<noteq> 0"
    by auto
  from calculos_do_perfil_Inr [OF this] obtain p where
    "calculos_do_perfil rnd d (altitude_cruzeiro_ft q) (vel_subida_kmh q) (vel_cruzeiro_kmh q)
       (vel_descida_kmh q) (razao_subida_fpm q) (razao_descida_fpm q) = Inr p"
    by blast
  with assms show ?thesis
    by (simp add: calculo_adaptativo_def calcular_perfil_de_voo_def)
qed



lemma busca_fallback:
  assumes nv: "\<not> dados_validos (fst (consulta_opensky rnd states))"
    and fb: "fst (consultar_adsb_lol rnd response) = Some fb"
  shows "dados_validos (fst (busca_em_tempo_real rnd states response)) \<longleftrightarrow>
           truthy (fb_latitude fb) \<and> truthy (fb_longitude fb) \<and> truthy (fb_velocity fb)"
    and "dados_validos (fst (busca_em_tempo_real rnd states response)) \<Longrightarrow>
           velocidade_kmh (fst (busca_em_tempo_real rnd states response)) = fb_velocity fb"
proof -
  obtain r qs where c: "consulta_opensky rnd states = (r, qs)"
    by (cases "consulta_opensky rnd states")
  obtain f qs' where a: "consultar_adsb_lol rnd response = (f, qs')"
    by (cases "consultar_adsb_lol rnd response")
  from nv fb c a
  show "dados_validos (fst (busca_em_tempo_real rnd states response)) \<longleftrightarrow>
           truthy (fb_latitude fb) \<and> truthy (fb_longitude fb) \<and> truthy (fb_velocity fb)"
    by (simp add: busca_em_tempo_real_def)
  from nv fb c a
  show "dados_validos (fst (busca_em_tempo_real rnd states response)) \<Longrightarrow>
           velocidade_kmh (fst (busca_em_tempo_real rnd states response)) = fb_velocity fb"
    by (simp add: busca_em_tempo_real_def split: if_splits)
qed

lemma consultar_adsb_lol_Some:
  assumes "response = Resposta status_code (Json data)" "ac data = Some (a # as)"
    "fst (consultar_adsb_lol rnd response) = Some fb"
  shows "fb_latitude fb = lat a" "fb_longitude fb = lon a"
    "fb_velocity fb = (if truthy (gs a) then Some (rnd (the (gs a) * rnd (1852 / 1000))) else None)"
  using assms by (auto simp: consultar_adsb_lol_def split: if_splits)

lemma consultar_adsb_lol_total:
  assumes "response = Resposta status_code (Json data)" "ac data = Some (a # as)"
    "total data = Some n" "0 < n" "\<not> (400 \<le> status_code \<and> status_code < 600)"
  shows "\<exists>fb. fst (consultar_adsb_lol rnd response) = Some fb"
  using assms by (simp add: consultar_adsb_lol_def raise_for_status_def)


text \<open>
  C7. When the primary provider gives no valid data and the first aircraft of the
  secondary provider's answer has the ground speed \<open>g\<close>, a pass that ends with valid data
  has the velocity \<open>g * 1.852\<close>; and the pass does end with valid data when the status is
  not an error status, \<^verbatim>\<open>total\<close> is positive, latitude and longitude are present and not
  zero, and \<open>g\<close> and the product are not zero.
\<close>

theorem velocidade_do_fallback:
  assumes "\<not> dados_validos (fst (consulta_opensky rnd states))"
    and "response = Resposta status_code (Json data)" and "ac data = Some (a # as)"
    and "gs a = Some g"
  shows "(dados_validos (fst (busca_em_tempo_real rnd states response)) \<longrightarrow>
            velocidade_kmh (fst (busca_em_tempo_real rnd states response)) =
              Some (rnd (g * rnd (1852 / 1000)))) \<and>
         (\<not> (400 \<le> status_code \<and> status_code < 600) \<and>
          total data = Some n \<and> 0 < n \<and> truthy (lat a) \<and> truthy (lon a) \<and> g \<noteq> 0 \<and>
          rnd (g * rnd (1852 / 1000)) \<noteq> 0 \<longrightarrow>
            dados_validos (fst (busca_em_tempo_real rnd states response)))"
proof (intro conjI impI)
  assume v: "dados_validos (fst (busca_em_tempo_real rnd states response))"
  have "fst (consultar_adsb_lol rnd response) \<noteq> None"
    using busca_fallback_None [OF assms(1)] v by blast
  then obtain fb where fb: "fst (consultar_adsb_lol rnd response) = Some fb"
    by blast
  from busca_fallback [OF assms(1) fb] v
  have t: "truthy (fb_velocity fb)"
    and e: "velocidade_kmh (fst (busca_em_tempo_real rnd states response)) = fb_velocity fb"
    by simp_all
  from consultar_adsb_lol_Some(3) [OF assms(2,3) fb] assms(4) t
  have "fb_velocity fb = Some (rnd (g * rnd (1852 / 1000)))"
    by (simp add: truthy_def split: if_splits)
  with e show "velocidade_kmh (fst (busca_em_tempo_real rnd states response)) =
      Some (rnd (g * rnd (1852 / 1000)))"
    by simp
next
  assume h: "\<not> (400 \<le> status_code \<and> status_code < 600) \<and>
          total data = Some n \<and> 0 < n \<and> truthy (lat a) \<and> truthy (lon a) \<and> g \<noteq> 0 \<and>
          rnd (g * rnd (1852 / 1000)) \<noteq> 0"
  then have "total data = Some n" "0 < n" "\<not> (400 \<le> status_code \<and> status_code < 600)"
    by simp_all
  from consultar_adsb_lol_total [OF assms(2,3) this]
  obtain fb where fb: "fst (consultar_adsb_lol rnd response) = Some fb"
    by blast
  from consultar_adsb_lol_Some [OF assms(2,3) fb] assms(4) h
  have "truthy (fb_latitude fb) \<and> truthy (fb_longitude fb) \<and> truthy (fb_velocity fb)"
    by (simp add: truthy_def)
  with busca_fallback(1) [OF assms(1) fb]
  show "dados_validos (fst (busca_em_tempo_real rnd states response))"
    by simp
qed

theorem velocidade_do_fallback_witness:
  "dados_validos (fst (busca_em_tempo_real (\<lambda>x. x) Excecao
      (Resposta 200 (Json \<lparr>total = Some 1,
         ac = Some [\<lparr>lat = Some (-23), lon = Some (-46), gs = Some 450\<rparr>]\<rparr>)))) \<and>
   velocidade_kmh (fst (busca_em_tempo_real (\<lambda>x. x) Excecao
      (Resposta 200 (Json \<lparr>total = Some 1,
         ac = Some [\<lparr>lat = Some (-23), lon = Some (-46), gs = Some 450\<rparr>]\<rparr>)))) =
     Some (450 * (1852 / 1000))"
proof -
  have 1: "\<not> dados_validos (fst (consulta_opensky (\<lambda>x. x) Excecao))"
    by (simp add: consulta_opensky_def)
  from velocidade_do_fallback [where rnd = "\<lambda>x. x" and states = Excecao
      and status_code = 200
      and data = "\<lparr>total = Some 1, ac = Some [\<lparr>lat = Some (-23), lon = Some (-46), gs = Some 450\<rparr>]\<rparr>"
      and a = "\<lparr>lat = Some (-23), lon = Some (-46), gs = Some 450\<rparr>" and as = "[]"
      and g = 450 and n = 1, OF 1]
  show ?thesis
    by (simp add: truthy_def)
qed

text \<open>
  C8. Zero counts as missing. A first state of the primary provider whose latitude,
  longitude or velocity is \<^verbatim>\<open>None\<close> or 0 gives no valid data, and the secondary provider is
  asked. An answer of the secondary provider whose first aircraft has \<^verbatim>\<open>gs\<close> equal to 0
  gives the velocity \<^verbatim>\<open>None\<close>, and the pass, the primary provider having failed, ends without
  valid data.
\<close>

theorem zero_conta_como_ausente:
  "(states = Retorno (Some (s # ss)) \<and>
    (latitude s = None \<or> latitude s = Some 0 \<or> longitude s = None \<or> longitude s = Some 0 \<or>
     velocity s = None \<or> velocity s = Some 0) \<longrightarrow>
      \<not> dados_validos (fst (consulta_opensky rnd states)) \<and>
      fst (snd (busca_em_tempo_real rnd states response)) = [OpenSky, ADSB_lol]) \<and>
   (response = Resposta status_code (Json data) \<and> ac data = Some (a # as) \<and> gs a = Some 0 \<longrightarrow>
      (\<forall>fb. fst (consultar_adsb_lol rnd response) = Some fb \<longrightarrow> fb_velocity fb = None) \<and>
      (\<not> dados_validos (fst (consulta_opensky rnd states)) \<longrightarrow>
         \<not> dados_validos (fst (busca_em_tempo_real rnd states response)) \<and>
         snd (snd (busca_em_tempo_real rnd states response)) = Some Aviso_nao_encontrado))"
proof (intro conjI impI allI)
  assume "states = Retorno (Some (s # ss)) \<and>
    (latitude s = None \<or> latitude s = Some 0 \<or> longitude s = None \<or> longitude s = Some 0 \<or>
     velocity s = None \<or> velocity s = Some 0)"
  then show nv: "\<not> dados_validos (fst (consulta_opensky rnd states))"
    by (auto simp: consulta_opensky_validos truthy_def)
  then show "fst (snd (busca_em_tempo_real rnd states response)) = [OpenSky, ADSB_lol]"
    by (simp add: busca_consultas)
next
  fix fb
  assume h: "response = Resposta status_code (Json data) \<and> ac data = Some (a # as) \<and>
      gs a = Some 0"
    and fb: "fst (consultar_adsb_lol rnd response) = Some fb"
  from h have r: "response = Resposta status_code (Json data)" and ac: "ac data = Some (a # as)"
    by simp_all
  from consultar_adsb_lol_Some(3) [OF r ac fb] h
  show "fb_velocity fb = None"
    by (simp add: truthy_def)
next
  assume h: "response = Resposta status_code (Json data) \<and> ac data = Some (a # as) \<and>
      gs a = Some 0"
    and nv: "\<not> dados_validos (fst (consulta_opensky rnd states))"
  from h have r: "response = Resposta status_code (Json data)" and ac: "ac data = Some (a # as)"
    by simp_all
  show nd: "\<not> dados_validos (fst (busca_em_tempo_real rnd states response))"
  proof (cases "fst (consultar_adsb_lol rnd response)")
    case None
    with nv show ?thesis
      by (simp add: busca_fallback_None)
  next
    case (Some fb)
    from consultar_adsb_lol_Some(3) [OF r ac Some] h have "fb_velocity fb = None"
      by (simp add: truthy_def)
    with busca_fallback(1) [OF nv Some] show ?thesis
      by (simp add: truthy_def)
  qed
  from busca_sem_dados [OF nd]
  show "snd (snd (busca_em_tempo_real rnd states response)) = Some Aviso_nao_encontrado"
    by simp
qed

theorem zero_conta_como_ausente_witness:
  "\<not> dados_validos (fst (consulta_opensky binary64 (Retorno (Some
      [\<lparr>latitude = Some (-23), longitude = Some (-46), velocity = Some 0,
        baro_altitude = Some 0\<rparr>])))) \<and>
   fst (snd (busca_em_tempo_real binary64 (Retorno (Some
      [\<lparr>latitude = Some (-23), longitude = Some (-46), velocity = Some 0,
        baro_altitude = Some 0\<rparr>]))
      (Resposta 200 (Json \<lparr>total = Some 1,
         ac = Some [\<lparr>lat = Some (-23), lon = Some (-46), gs = Some 0\<rparr>]\<rparr>)))) =
     [OpenSky, ADSB_lol] \<and>
   \<not> dados_validos (fst (busca_em_tempo_real binary64 (Retorno (Some
      [\<lparr>latitude = Some (-23), longitude = Some (-46), velocity = Some 0,
        baro_altitude = Some 0\<rparr>]))
      (Resposta 200 (Json \<lparr>total = Some 1,
         ac = Some [\<lparr>lat = Some (-23), lon = Some (-46), gs = Some 0\<rparr>]\<rparr>))))"
  using zero_conta_como_ausente [where rnd = binary64
      and states = "Retorno (Some [\<lparr>latitude = Some (-23), longitude = Some (-46),
        velocity = Some 0, baro_altitude = Some 0\<rparr>])"
      and s = "\<lparr>latitude = Some (-23), longitude = Some (-46), velocity = Some 0,
        baro_altitude = Some 0\<rparr>" and ss = "[]"
      and response = "Resposta 200 (Json \<lparr>total = Some 1,
        ac = Some [\<lparr>lat = Some (-23), lon = Some (-46), gs = Some 0\<rparr>]\<rparr>)"
      and status_code = 200
      and data = "\<lparr>total = Some 1, ac = Some [\<lparr>lat = Some (-23), lon = Some (-46), gs = Some 0\<rparr>]\<rparr>"
      and a = "\<lparr>lat = Some (-23), lon = Some (-46), gs = Some 0\<rparr>" and as = "[]"]
  by simp

end
